theory Spec2Isabelle
  imports Main "HOL-Library.Sublist"
begin

section \<open>Random credential generator\<close>

text \<open>
  The three constants of Python's \<^verbatim>\<open>string\<close> module that the generators concatenate
  into their alphabets.
\<close>

definition ascii_uppercase :: string where
  "ascii_uppercase = ''ABCDEFGHIJKLMNOPQRSTUVWXYZ''"

definition ascii_lowercase :: string where
  "ascii_lowercase = ''abcdefghijklmnopqrstuvwxyz''"

definition digits :: string where
  "digits = ''0123456789''"

text \<open>
  \<^verbatim>\<open>random.choice(chars)\<close> returns \<^verbatim>\<open>chars[k]\<close> for an index \<open>k\<close> below
  \<^verbatim>\<open>len(chars)\<close> drawn from the global generator. The generator is a stream of
  natural numbers \<open>r\<close>; the \<open>i\<close>-th draw is reduced below the length of the sequence,
  so every index sequence Python can produce is produced by some stream.
\<close>

definition choice :: "(nat \<Rightarrow> nat) \<Rightarrow> nat \<Rightarrow> string \<Rightarrow> char" where
  "choice r i chars = chars ! (r i mod length chars)"

definition generate_random_aws_secret_key :: "(nat \<Rightarrow> nat) \<Rightarrow> string" where
  "generate_random_aws_secret_key r =
     (let chars = ascii_uppercase @ ascii_lowercase @ digits @ ''/'' @ ''+'' @ ''='';
          key = map (\<lambda>i. choice r i chars) [0..<40]
      in key)"

definition generate_random_aws_access_key :: "(nat \<Rightarrow> nat) \<Rightarrow> string" where
  "generate_random_aws_access_key r =
     (let chars = ascii_uppercase @ digits;
          key = ''AKIA'' @ map (\<lambda>i. choice r i chars) [0..<16]
      in key)"

text \<open>The character classes of the specification, by character code.\<close>

definition is_upper :: "char \<Rightarrow> bool" where
  "is_upper c = (65 \<le> (of_char c :: nat) \<and> (of_char c :: nat) \<le> 90)"

definition is_lower :: "char \<Rightarrow> bool" where
  "is_lower c = (97 \<le> (of_char c :: nat) \<and> (of_char c :: nat) \<le> 122)"

definition is_digit :: "char \<Rightarrow> bool" where
  "is_digit c = (48 \<le> (of_char c :: nat) \<and> (of_char c :: nat) \<le> 57)"

definition is_symbol :: "char \<Rightarrow> bool" where
  "is_symbol c = (c = CHR ''/'' \<or> c = CHR ''+'' \<or> c = CHR ''='')"

section \<open>The world outside the script\<close>

text \<open>
  A path is the list of its components, as \<^verbatim>\<open>pathlib.Path\<close> holds it: \<^verbatim>\<open>p / '.git'\<close>
  appends a component. \<open>path_str\<close> is the text of an absolute path, used where the
  source formats a path into a command line.
\<close>

type_synonym path = "string list"

definition path_str :: "path \<Rightarrow> string" where
  "path_str p = concat (map (\<lambda>c. ''/'' @ c) p)"

datatype node = Dir | File string

text \<open>
  The bytes captured from a subprocess, kept as what \<^verbatim>\<open>.decode('utf-8')\<close> makes of
  them: the decoded text, or nothing when the bytes are not valid UTF-8 and decoding
  raises \<^verbatim>\<open>UnicodeDecodeError\<close>.
\<close>

datatype captured = Text string | Undecodable

record proc =
  returncode :: int
  cpe_output :: captured

datatype exn =
    SystemExit int
  | UnicodeDecodeError
  | OSError path
  | AssertionError

text \<open>
  \<^verbatim>\<open>except Exception\<close> catches every exception class of the model except
  \<^verbatim>\<open>SystemExit\<close>, which derives from \<^verbatim>\<open>BaseException\<close> only.
\<close>

fun is_Exception :: "exn \<Rightarrow> bool" where
  "is_Exception (SystemExit _) = False"
| "is_Exception _ = True"

datatype level = DEBUG | INFO | ERROR

text \<open>
  One constructor for each message the script logs, with the values formatted into it.
\<close>

datatype msg =
    GitDirExists path
  | RunningCommand string
  | DecodedOutput string
  | ConfigContents string
  | CommandReturnCode string int
  | CommandOutput string
  | CouldNotRun string string
  | CannotRemove path exn
  | NotFoundInPath string
  | NotExecutable path
  | ChangedDirectory path
  | CouldNotChangeDirectory path exn
  | RemoveManually path

text \<open>
  The state the script works on: the file system, the process's working directory, the
  calls made to \<^verbatim>\<open>logging\<close> in order (whatever the configured level, which only
  decides what reaches standard error), that level, the command lines handed to the shell
  in order, and what was printed to standard output.
\<close>

record world =
  fs :: "path \<rightharpoonup> node"
  cwd :: path
  logs :: "(level \<times> msg) list"
  threshold :: level
  procs :: "string list"
  printed :: "string list"

text \<open>
  What the outside world answers: the directory \<^verbatim>\<open>tempfile.mkdtemp\<close> creates, the
  result of \<^verbatim>\<open>shutil.which\<close>, of \<^verbatim>\<open>os.access(_, os.X_OK)\<close>, the exit status and
  captured output of each command line, the directory in which the init command line has
  made a repository (if it has made one), the config file a fresh \<^verbatim>\<open>git init\<close> writes,
  whether deleting a tree is refused, the random draws, and what
  \<^verbatim>\<open>ArgumentParser.parse_args\<close> does with the arguments (the value of the debug flag,
  or the exception it raises).
\<close>

record env =
  tmpdir :: path
  which :: "string \<Rightarrow> path option"
  access_x :: "path \<Rightarrow> bool"
  shell :: "string \<Rightarrow> proc"
  init_target :: "string \<Rightarrow> path option"
  init_config :: string
  rmtree_refused :: "path \<Rightarrow> bool"
  rng :: "nat \<Rightarrow> nat"
  parser :: "string list \<Rightarrow> exn + bool"

type_synonym 'a res = "(exn + 'a) \<times> world"

definition logging :: "level \<Rightarrow> msg \<Rightarrow> world \<Rightarrow> world" where
  "logging l m s = s\<lparr>logs := logs s @ [(l, m)]\<rparr>"

definition decode :: "captured \<Rightarrow> exn + string" where
  "decode c = (case c of Text t \<Rightarrow> Inr t | Undecodable \<Rightarrow> Inl UnicodeDecodeError)"

definition isdir :: "world \<Rightarrow> path \<Rightarrow> bool" where
  "isdir s p = (fs s p = Some Dir)"

text \<open>
  \<^verbatim>\<open>subprocess.check_output(cmd, shell=True, stderr=subprocess.STDOUT)\<close>: the command
  runs; a zero exit status returns the captured bytes (\<open>Inr\<close>), any other raises
  \<^verbatim>\<open>CalledProcessError\<close> carrying the status and the bytes (\<open>Inl\<close>).
\<close>

definition check_output :: "env \<Rightarrow> string \<Rightarrow> world \<Rightarrow> (proc + captured) \<times> world" where
  "check_output e cmd s =
     (let p = shell e cmd; s' = s\<lparr>procs := procs s @ [cmd]\<rparr>
      in if returncode p = 0 then (Inr (cpe_output p), s') else (Inl p, s'))"

text \<open>
  What the init command line leaves behind. \<^verbatim>\<open>create_repo\<close> formats the path unquoted
  into a command line for the shell, so where the repository is made is for the shell and
  git to decide, whatever the exit status: not at \<open>path\<close> when the path holds a \<^verbatim>\<open> #\<close>,
  a \<^verbatim>\<open>;\<close> or a \<^verbatim>\<open>>\<close>, or when git is told by its environment to put the metadata
  elsewhere. Where a repository is made in a directory \<open>q\<close>, \<open>q\<close> and its \<^verbatim>\<open>.git\<close> are
  directories afterwards and \<^verbatim>\<open>.git/config\<close> is a file (an existing one is kept, as git
  does when it reinitialises). The other git commands only write inside \<^verbatim>\<open>.git\<close>, which
  the model does not look into.
\<close>

definition init_fs :: "env \<Rightarrow> string \<Rightarrow> (path \<rightharpoonup> node) \<Rightarrow> (path \<rightharpoonup> node)" where
  "init_fs e cmd f =
     (case init_target e cmd of
        None \<Rightarrow> f
      | Some q \<Rightarrow>
          f(q \<mapsto> Dir,
            q @ [''.git''] \<mapsto> Dir,
            q @ [''.git'', ''config''] \<mapsto>
              File (case f (q @ [''.git'', ''config'']) of
                      Some (File c) \<Rightarrow> c | _ \<Rightarrow> init_config e)))"

definition git_init_effect :: "env \<Rightarrow> string \<Rightarrow> world \<Rightarrow> world" where
  "git_init_effect e cmd s = s\<lparr>fs := init_fs e cmd (fs s)\<rparr>"

text \<open>
  \<^verbatim>\<open>open(p, mode)\<close> needs the parent of \<open>p\<close> to be a directory and \<open>p\<close> not to be
  one; reading needs the file to exist. A failure is an \<^verbatim>\<open>OSError\<close>.
\<close>

definition open_write :: "path \<Rightarrow> string \<Rightarrow> world \<Rightarrow> unit res" where
  "open_write p text s =
     (if isdir s (butlast p) \<and> \<not> isdir s p
      then (Inr (), s\<lparr>fs := (fs s)(p \<mapsto> File text)\<rparr>)
      else (Inl (OSError p), s))"

definition open_append :: "path \<Rightarrow> string \<Rightarrow> world \<Rightarrow> unit res" where
  "open_append p text s =
     (if isdir s (butlast p) \<and> \<not> isdir s p
      then (Inr (), s\<lparr>fs := (fs s)
              (p \<mapsto> File ((case fs s p of Some (File c) \<Rightarrow> c | _ \<Rightarrow> []) @ text))\<rparr>)
      else (Inl (OSError p), s))"

definition open_read :: "path \<Rightarrow> world \<Rightarrow> string res" where
  "open_read p s = (case fs s p of Some (File c) \<Rightarrow> (Inr c, s) | _ \<Rightarrow> (Inl (OSError p), s))"

definition chdir :: "path \<Rightarrow> world \<Rightarrow> unit res" where
  "chdir p s = (if isdir s p then (Inr (), s\<lparr>cwd := p\<rparr>) else (Inl (OSError p), s))"

text \<open>
  \<^verbatim>\<open>shutil.rmtree(path)\<close> raises an \<^verbatim>\<open>OSError\<close> when \<open>path\<close> is not a directory or
  the deletion is refused; otherwise everything at and below \<open>path\<close> is gone.
\<close>

definition rmtree :: "env \<Rightarrow> path \<Rightarrow> world \<Rightarrow> unit res" where
  "rmtree e path s =
     (if \<not> isdir s path \<or> rmtree_refused e path then (Inl (OSError path), s)
      else (Inr (), s\<lparr>fs := (\<lambda>p. if prefix path p then None else fs s p)\<rparr>))"

definition mkdtemp :: "env \<Rightarrow> world \<Rightarrow> path \<times> world" where
  "mkdtemp e s = (tmpdir e, s\<lparr>fs := (fs s)(tmpdir e \<mapsto> Dir)\<rparr>)"

section \<open>class TestAwsPatterns\<close>

text \<open>
  The value a method of the class returns that either falls off its end (\<^verbatim>\<open>None\<close>)
  or returns \<^verbatim>\<open>False\<close>.
\<close>

datatype ret = RNone | RFalse

definition gpgsign_config_string :: string where
  "gpgsign_config_string = ''[commit]'' @ [CHR 0x0A, CHR 0x09] @ ''gpgsign = false''"

definition disable_gpgsign :: "path \<Rightarrow> world \<Rightarrow> unit res" where
  "disable_gpgsign path s =
     (let git_config_path = path @ [''.git'', ''config'']
      in open_append git_config_path gpgsign_config_string s)"

definition create_repo :: "env \<Rightarrow> bool \<Rightarrow> path \<Rightarrow> world \<Rightarrow> ret res" where
  "create_repo e debug path s0 =
     (let git_dir_path = path @ [''.git''];
          s1 = (if isdir s0 git_dir_path
                then logging ERROR (GitDirExists git_dir_path) s0 else s0);
          cmd = ''git init '' @ path_str path;
          s2 = logging DEBUG (RunningCommand cmd) s1
      in case check_output e cmd s2 of
           (Inr out, s3) \<Rightarrow>
             (let s4 = git_init_effect e cmd s3
              in case decode out of
                   Inl x \<Rightarrow> (Inl x, s4)
                 | Inr t \<Rightarrow>
                     (case disable_gpgsign path (logging DEBUG (DecodedOutput t) s4) of
                        (Inl x, s5) \<Rightarrow> (Inl x, s5)
                      | (Inr _, s5) \<Rightarrow>
                          if debug
                          then (case open_read (path @ [''.git'', ''config'']) s5 of
                                  (Inl x, s6) \<Rightarrow> (Inl x, s6)
                                | (Inr contents, s6) \<Rightarrow>
                                    (Inr RNone, logging DEBUG (ConfigContents contents) s6))
                          else (Inr RNone, s5)))
         | (Inl cpe, s3) \<Rightarrow>
             (let s4 = logging ERROR (CommandReturnCode cmd (returncode cpe))
                         (git_init_effect e cmd s3)
              in case decode (cpe_output cpe) of
                   Inl x \<Rightarrow> (Inl x, s4)
                 | Inr t \<Rightarrow> (Inr RFalse, logging ERROR (CommandOutput t) s4)))"

definition commit_cmd :: string where
  "commit_cmd = ''git commit -m '' @ [CHR 0x27] @ ''test pre-commit hook'' @ [CHR 0x27]"

definition trigger_hook :: "env \<Rightarrow> string \<Rightarrow> world \<Rightarrow> bool res" where
  "trigger_hook e f s0 =
     (let marker = False;
          cmd = ''git add '' @ f;
          s1 = logging DEBUG (RunningCommand cmd) s0;
          staged = (case check_output e cmd s1 of
                      (Inr out, s2) \<Rightarrow> (Inr (), s2)
                    | (Inl cpe, s2) \<Rightarrow>
                        (case decode (cpe_output cpe) of
                           Inl x \<Rightarrow> (Inl x, s2)
                         | Inr t \<Rightarrow> (Inr (), logging ERROR (CouldNotRun cmd t) s2)))
      in case staged of
           (Inl x, s3) \<Rightarrow> (Inl x, s3)
         | (Inr _, s3) \<Rightarrow>
             (let cmd = commit_cmd;
                  s4 = logging DEBUG (RunningCommand cmd) s3
              in case check_output e cmd s4 of
                   (Inr out, s5) \<Rightarrow> (Inr True, s5)
                 | (Inl cpe, s5) \<Rightarrow>
                     (let s6 = logging INFO (CommandReturnCode cmd (returncode cpe)) s5
                      in case decode (cpe_output cpe) of
                           Inl x \<Rightarrow> (Inl x, s6)
                         | Inr t \<Rightarrow> (Inr marker, logging INFO (CommandOutput t) s6))))"

definition remove_repo :: "env \<Rightarrow> path \<Rightarrow> world \<Rightarrow> ret res" where
  "remove_repo e path s =
     (case rmtree e path s of
        (Inr _, s1) \<Rightarrow> (Inr RNone, s1)
      | (Inl x, s1) \<Rightarrow>
          if is_Exception x then (Inr RFalse, logging ERROR (CannotRemove path x) s1)
          else (Inl x, s1))"

definition which_git_secrets :: "env \<Rightarrow> world \<Rightarrow> unit res" where
  "which_git_secrets e s =
     (let git_secrets = ''git-secrets''
      in case which e git_secrets of
           None \<Rightarrow> (Inl (SystemExit 1), logging ERROR (NotFoundInPath git_secrets) s)
         | Some found \<Rightarrow>
             if \<not> access_x e found
             then (Inl (SystemExit 1), logging ERROR (NotExecutable found) s)
             else (Inr (), s))"

section \<open>class Test_01_GitPreCommitHook\<close>

record testcase =
  repo_path :: path
  outfile :: string
  debug :: bool

text \<open>
  The constructor; \<open>DEBUG\<close> is the class attribute of that name, which \<^verbatim>\<open>main\<close> sets.
\<close>

definition Test_01_init :: "env \<Rightarrow> bool \<Rightarrow> world \<Rightarrow> testcase \<times> world" where
  "Test_01_init e DEBUG_flag s =
     (let (tmp, s1) = mkdtemp e s
      in (\<lparr>repo_path = tmp, outfile = ''test.txt'', debug = DEBUG_flag\<rparr>, s1))"

definition setUp :: "testcase \<Rightarrow> env \<Rightarrow> world \<Rightarrow> unit res" where
  "setUp t e s =
     (case which_git_secrets e s of
        (Inl x, s1) \<Rightarrow> (Inl x, s1)
      | (Inr _, s1) \<Rightarrow>
          (case create_repo e (debug t) (repo_path t) s1 of
             (Inl x, s2) \<Rightarrow> (Inl x, s2)
           | (Inr r, s2) \<Rightarrow>
               if r \<noteq> RFalse
               then (let outfile_path = repo_path t @ [outfile t];
                         prohibited_pattern =
                           ''aws_secret_access_key = '' @ generate_random_aws_secret_key (rng e)
                     in open_write outfile_path prohibited_pattern s2)
               else (Inr (), s2)))"

text \<open>
  The two guarded directory changes of the test method: an \<^verbatim>\<open>OSError\<close> of
  \<^verbatim>\<open>os.chdir\<close> is logged and execution goes on.
\<close>

definition try_chdir :: "path \<Rightarrow> world \<Rightarrow> world" where
  "try_chdir p s =
     (case chdir p s of
        (Inr _, s1) \<Rightarrow> logging DEBUG (ChangedDirectory p) s1
      | (Inl ose, s1) \<Rightarrow> logging ERROR (CouldNotChangeDirectory p ose) s1)"

definition test_git_pre_commit_hook :: "testcase \<Rightarrow> env \<Rightarrow> world \<Rightarrow> unit res" where
  "test_git_pre_commit_hook t e s =
     (let saved_path = cwd s;
          s1 = try_chdir (repo_path t) s
      in case trigger_hook e (outfile t) s1 of
           (Inl x, s2) \<Rightarrow> (Inl x, s2)
         | (Inr outcome, s2) \<Rightarrow>
             if outcome then (Inl AssertionError, s2)
             else (Inr (), try_chdir saved_path s2))"

definition tearDown :: "testcase \<Rightarrow> env \<Rightarrow> world \<Rightarrow> unit res" where
  "tearDown t e s =
     (case remove_repo e (repo_path t) s of
        (Inl x, s1) \<Rightarrow> (Inl x, s1)
      | (Inr r, s1) \<Rightarrow>
          if r = RFalse then (Inr (), logging ERROR (RemoveManually (repo_path t)) s1)
          else (Inr (), s1))"

section \<open>The test runner and the entry point\<close>

text \<open>
  \<^verbatim>\<open>unittest.TestCase.run\<close> for a test case with one test method. Whatever
  \<^verbatim>\<open>setUp\<close> raises, \<^verbatim>\<open>SystemExit\<close> included, is caught by the runner and recorded as
  an error, and then neither the test method nor \<^verbatim>\<open>tearDown\<close> runs. Otherwise the
  test method runs and \<^verbatim>\<open>tearDown\<close> runs after it in any case; an
  \<^verbatim>\<open>AssertionError\<close> is a failure, any other exception an error.
\<close>

datatype outcome = Success | Failure | Error exn

fun classify :: "exn \<Rightarrow> outcome" where
  "classify AssertionError = Failure"
| "classify x = Error x"

definition run :: "testcase \<Rightarrow> env \<Rightarrow> world \<Rightarrow> outcome \<times> world" where
  "run t e s =
     (case setUp t e s of
        (Inl x, s1) \<Rightarrow> (classify x, s1)
      | (Inr _, s1) \<Rightarrow>
          (case test_git_pre_commit_hook t e s1 of
             (r2, s2) \<Rightarrow>
               (case tearDown t e s2 of
                  (r3, s3) \<Rightarrow>
                    ((case r2 of
                        Inl x \<Rightarrow> classify x
                      | Inr _ \<Rightarrow> (case r3 of Inl y \<Rightarrow> classify y | Inr _ \<Rightarrow> Success)),
                     s3))))"

text \<open>
  \<^verbatim>\<open>unittest.main()\<close>: the one test case of the module is constructed and run, and the
  process exits through \<^verbatim>\<open>sys.exit(not result.wasSuccessful())\<close>, status 0 for a
  success and 1 otherwise. \<open>DEBUG_flag\<close> is the class attribute \<^verbatim>\<open>DEBUG\<close> at that
  moment. The arguments the runner reads for itself are the ones \<^verbatim>\<open>parse_args\<close> has
  accepted, without the debug flag, and select nothing.
\<close>

definition unittest_main :: "env \<Rightarrow> bool \<Rightarrow> world \<Rightarrow> unit res" where
  "unittest_main e DEBUG_flag s =
     (let (t, s1) = Test_01_init e DEBUG_flag s;
          (result, s2) = run t e s1
      in (Inl (SystemExit (if result = Success then 0 else 1)), s2))"

text \<open>
  \<^verbatim>\<open>parse_args\<close>: the bare \<^verbatim>\<open>except\<close> catches whatever the parser raises, the
  \<^verbatim>\<open>SystemExit\<close> of a usage error included.
\<close>

definition parse_args :: "env \<Rightarrow> string list \<Rightarrow> exn + bool" where
  "parse_args e argv =
     (case parser e (tl argv) of
        Inr options \<Rightarrow> Inr options
      | Inl _ \<Rightarrow> Inl (SystemExit 0))"

text \<open>\<^verbatim>\<open>sys.version_info >= (3, 4)\<close> on the major and minor version numbers.\<close>

definition version_ok :: "nat \<times> nat \<Rightarrow> bool" where
  "version_ok v = (fst v > 3 \<or> (fst v = 3 \<and> snd v \<ge> 4))"

definition main :: "nat \<times> nat \<Rightarrow> string list \<Rightarrow> env \<Rightarrow> world \<Rightarrow> unit res" where
  "main version_info argv e s =
     (if \<not> version_ok version_info
      then (Inl (SystemExit 1),
            s\<lparr>printed := printed s @
                 [''ERROR: Required minimum Python version is 3.4! Exiting...'']\<rparr>)
      else (case parse_args e argv of
              Inl x \<Rightarrow> (Inl x, s)
            | Inr args_debug \<Rightarrow>
                if args_debug
                then unittest_main e True (s\<lparr>threshold := DEBUG\<rparr>)
                else unittest_main e False (s\<lparr>threshold := INFO\<rparr>)))"

text \<open>
  \<^verbatim>\<open>sys.exit(main())\<close> at module level: the exit status of the process and the state
  it leaves. An uncaught exception other than \<^verbatim>\<open>SystemExit\<close> ends the interpreter
  with status 1.
\<close>

definition program :: "nat \<times> nat \<Rightarrow> string list \<Rightarrow> env \<Rightarrow> world \<Rightarrow> int \<times> world" where
  "program version_info argv e s =
     (case main version_info argv e s of
        (Inl (SystemExit status), s1) \<Rightarrow> (status, s1)
      | (Inl _, s1) \<Rightarrow> (1, s1)
      | (Inr _, s1) \<Rightarrow> (0, s1))"

section \<open>Vocabulary of the properties\<close>

text \<open>
  Captured bytes are decodable when they are valid UTF-8; a command's result is loggable
  when the script can log it without decoding anything undecodable, which is when the
  command exited with status zero or its captured bytes are decodable.
\<close>

fun decodable :: "captured \<Rightarrow> bool" where
  "decodable (Text _) = True"
| "decodable Undecodable = False"

fun text_of :: "captured \<Rightarrow> string" where
  "text_of (Text t) = t"
| "text_of Undecodable = []"

definition loggable :: "proc \<Rightarrow> bool" where
  "loggable p = (returncode p = 0 \<or> decodable (cpe_output p))"

text \<open>The scanner is usable when it is found on the search path and is executable.\<close>

definition scanner_usable :: "env \<Rightarrow> bool" where
  "scanner_usable e =
     (case which e ''git-secrets'' of None \<Rightarrow> False | Some found \<Rightarrow> access_x e found)"

text \<open>
  Concrete worlds for the examples: a machine where the scanner is installed and the
  pre-commit hook rejects the commit, and variations of it.
\<close>

definition world0 :: world where
  "world0 = \<lparr>fs = Map.empty([] \<mapsto> Dir, [''home''] \<mapsto> Dir, [''tmp''] \<mapsto> Dir), cwd = [''home''],
     logs = [], threshold = INFO, procs = [], printed = []\<rparr>"

definition flag_parser :: "string list \<Rightarrow> exn + bool" where
  "flag_parser args =
     (if args = [] then Inr False
      else if args = [''-d''] \<or> args = [''--debug''] then Inr True
      else Inl (SystemExit 2))"

definition env_hook :: env where
  "env_hook = \<lparr>tmpdir = [''tmp'', ''tmpk3x9''],
     which = (\<lambda>c. if c = ''git-secrets'' then Some [''usr'', ''bin'', ''git-secrets''] else None),
     access_x = (\<lambda>_. True),
     shell = (\<lambda>cmd. if cmd = commit_cmd
                then \<lparr>returncode = 1, cpe_output = Text ''[ERROR] Matched prohibited patterns''\<rparr>
                else \<lparr>returncode = 0, cpe_output = Text []\<rparr>),
     init_target = (\<lambda>cmd. if cmd = ''git init /tmp/tmpk3x9''
                       then Some [''tmp'', ''tmpk3x9''] else None),
     init_config = ''[core]'',
     rmtree_refused = (\<lambda>_. False),
     rng = (\<lambda>i. 7 * i),
     parser = flag_parser\<rparr>"

definition env_add_garbled :: env where
  "env_add_garbled = env_hook\<lparr>shell := (\<lambda>cmd. if cmd = ''git add test.txt''
                then \<lparr>returncode = 128, cpe_output = Undecodable\<rparr>
                else \<lparr>returncode = 0, cpe_output = Text []\<rparr>)\<rparr>"

definition env_commit_garbled :: env where
  "env_commit_garbled = env_hook\<lparr>shell := (\<lambda>cmd. if cmd = commit_cmd
                then \<lparr>returncode = 1, cpe_output = Undecodable\<rparr>
                else \<lparr>returncode = 0, cpe_output = Text []\<rparr>)\<rparr>"

definition env_init_garbled :: env where
  "env_init_garbled = env_hook\<lparr>shell := (\<lambda>cmd. if cmd = ''git init /tmp/tmpk3x9''
                then \<lparr>returncode = 0, cpe_output = Undecodable\<rparr>
                else \<lparr>returncode = 0, cpe_output = Text []\<rparr>)\<rparr>"

definition env_init_failed_garbled :: env where
  "env_init_failed_garbled = env_hook\<lparr>shell := (\<lambda>cmd. if cmd = ''git init /tmp/tmpk3x9''
                then \<lparr>returncode = 128, cpe_output = Undecodable\<rparr>
                else \<lparr>returncode = 0, cpe_output = Text []\<rparr>),
     init_target := (\<lambda>_. None)\<rparr>"

definition env_missing :: env where
  "env_missing = env_hook\<lparr>which := (\<lambda>_. None)\<rparr>"

definition env_not_executable :: env where
  "env_not_executable = env_hook\<lparr>access_x := (\<lambda>_. False)\<rparr>"

definition env_no_hook :: env where
  "env_no_hook = env_hook\<lparr>shell := (\<lambda>_. \<lparr>returncode = 0, cpe_output = Text []\<rparr>)\<rparr>"

definition env_add_failed :: env where
  "env_add_failed = env_hook\<lparr>shell := (\<lambda>cmd. if cmd = ''git add test.txt''
                then \<lparr>returncode = 128, cpe_output = Text ''fatal: not a git repository''\<rparr>
                else if cmd = commit_cmd
                then \<lparr>returncode = 128, cpe_output = Text ''fatal: not a git repository''\<rparr>
                else \<lparr>returncode = 0, cpe_output = Text []\<rparr>)\<rparr>"

definition env_init_failed :: env where
  "env_init_failed = env_hook\<lparr>shell := (\<lambda>cmd. if cmd = ''git init /tmp/tmpk3x9''
                then \<lparr>returncode = 128, cpe_output = Text ''fatal: cannot mkdir''\<rparr>
                else \<lparr>returncode = 0, cpe_output = Text []\<rparr>),
     init_target := (\<lambda>_. None)\<rparr>"

text \<open>
  A machine whose temporary directories lie below a directory named \<^verbatim>\<open>x #y\<close>: the shell
  reads the rest of the init command line as a comment and git makes the repository in
  \<^verbatim>\<open>/tmp/x\<close>.
\<close>

definition env_init_elsewhere :: env where
  "env_init_elsewhere = env_hook\<lparr>tmpdir := [''tmp'', ''x #y'', ''tmpk3x9''],
     init_target := (\<lambda>cmd. if cmd = ''git init /tmp/x #y/tmpk3x9''
                          then Some [''tmp'', ''x''] else None)\<rparr>"

text \<open>The test case as constructed on that machine, and the world right after.\<close>

definition test0 :: testcase where
  "test0 = fst (Test_01_init env_hook False world0)"

definition world1 :: world where
  "world1 = snd (Test_01_init env_hook False world0)"

section \<open>Properties of the generator\<close>

lemma choice_in_set: "chars \<noteq> [] \<Longrightarrow> choice r i chars \<in> set chars"
  by (simp add: choice_def)

lemma upper_chars: "list_all is_upper ascii_uppercase"
  unfolding ascii_uppercase_def is_upper_def by simp

lemma lower_chars: "list_all is_lower ascii_lowercase"
  unfolding ascii_lowercase_def is_lower_def by simp

lemma digit_chars: "list_all is_digit digits"
  unfolding digits_def is_digit_def by simp

lemma symbol_chars: "list_all is_symbol (''/'' @ ''+'' @ ''='')"
  unfolding is_symbol_def by simp

lemma secret_alphabet_classes:
  "c \<in> set (ascii_uppercase @ ascii_lowercase @ digits @ ''/'' @ ''+'' @ ''='') \<Longrightarrow>
   is_upper c \<or> is_lower c \<or> is_digit c \<or> is_symbol c"
  using upper_chars lower_chars digit_chars symbol_chars by (auto simp: list_all_iff)

lemma access_alphabet_classes:
  "c \<in> set (ascii_uppercase @ digits) \<Longrightarrow> is_upper c \<or> is_digit c"
  using upper_chars digit_chars by (auto simp: list_all_iff)

lemma secret_key_length: "length (generate_random_aws_secret_key r) = 40"
  by (simp add: generate_random_aws_secret_key_def)

lemma secret_key_chars:
  assumes "c \<in> set (generate_random_aws_secret_key r)"
  shows "is_upper c \<or> is_lower c \<or> is_digit c \<or> is_symbol c"
proof -
  let ?chars = "ascii_uppercase @ ascii_lowercase @ digits @ ''/'' @ ''+'' @ ''=''"
  have ne: "?chars \<noteq> []" by simp
  from assms obtain i where "c = choice r i ?chars"
    by (auto simp: generate_random_aws_secret_key_def Let_def)
  with choice_in_set [OF ne] have "c \<in> set ?chars" by simp
  then show ?thesis
    by (rule secret_alphabet_classes)
qed

lemma newline_not_in_secret: "CHR 0x0A \<notin> set (generate_random_aws_secret_key r)"
proof
  assume "CHR 0x0A \<in> set (generate_random_aws_secret_key r)"
  then have "is_upper (CHR 0x0A) \<or> is_lower (CHR 0x0A) \<or> is_digit (CHR 0x0A) \<or> is_symbol (CHR 0x0A)"
    by (rule secret_key_chars)
  then show False
    by (simp add: is_upper_def is_lower_def is_digit_def is_symbol_def)
qed

text \<open>
  C2. Every string returned by \<^verbatim>\<open>generate_random_aws_secret_key\<close>, whatever the random
  draws, has length exactly 40, and each of its characters is an uppercase letter, a
  lowercase letter, a digit or one of the three symbols \<^verbatim>\<open>/\<close>, \<^verbatim>\<open>+\<close>, \<^verbatim>\<open>=\<close>.
\<close>

theorem secret_key_shape:
  "length (generate_random_aws_secret_key r) = 40 \<and>
   (\<forall>c \<in> set (generate_random_aws_secret_key r).
      is_upper c \<or> is_lower c \<or> is_digit c \<or> is_symbol c)"
  using secret_key_length secret_key_chars by blast

theorem secret_key_shape_witness:
  "length (generate_random_aws_secret_key (\<lambda>i. 3 * i)) = 40 \<and>
   list_all (\<lambda>c. is_upper c \<or> is_lower c \<or> is_digit c \<or> is_symbol c)
     (generate_random_aws_secret_key (\<lambda>i. 3 * i)) \<and>
   take 5 (generate_random_aws_secret_key (\<lambda>i. 3 * i)) = ''ADGJM''"
proof -
  have "take 5 (generate_random_aws_secret_key (\<lambda>i. 3 * i)) = ''ADGJM''"
    by code_simp
  with secret_key_shape [of "\<lambda>i. 3 * i"] show ?thesis
    by (simp add: list_all_iff)
qed

text \<open>
  C9. Every string returned by \<^verbatim>\<open>generate_random_aws_access_key\<close> has length exactly
  20, starts with the fixed four-character prefix \<^verbatim>\<open>AKIA\<close>, and each of the remaining
  16 characters is an uppercase letter or a digit.
\<close>

theorem access_key_shape:
  "length (generate_random_aws_access_key r) = 20 \<and>
   take 4 (generate_random_aws_access_key r) = ''AKIA'' \<and>
   length (drop 4 (generate_random_aws_access_key r)) = 16 \<and>
   (\<forall>c \<in> set (drop 4 (generate_random_aws_access_key r)). is_upper c \<or> is_digit c)"
proof -
  let ?chars = "ascii_uppercase @ digits"
  have ne: "?chars \<noteq> []" by (simp add: digits_def)
  have tail: "drop 4 (generate_random_aws_access_key r) = map (\<lambda>i. choice r i ?chars) [0..<16]"
    by (simp add: generate_random_aws_access_key_def)
  have "\<forall>c \<in> set (drop 4 (generate_random_aws_access_key r)). is_upper c \<or> is_digit c"
  proof
    fix c assume "c \<in> set (drop 4 (generate_random_aws_access_key r))"
    then obtain i where "c = choice r i ?chars"
      unfolding tail by auto
    with choice_in_set [OF ne] have "c \<in> set ?chars" by simp
    then show "is_upper c \<or> is_digit c"
      by (rule access_alphabet_classes)
  qed
  then show ?thesis
    by (simp add: generate_random_aws_access_key_def)
qed

theorem access_key_shape_witness:
  "length (generate_random_aws_access_key (\<lambda>i. 5 * i)) = 20 \<and>
   take 4 (generate_random_aws_access_key (\<lambda>i. 5 * i)) = ''AKIA'' \<and>
   length (drop 4 (generate_random_aws_access_key (\<lambda>i. 5 * i))) = 16 \<and>
   list_all (\<lambda>c. is_upper c \<or> is_digit c) (drop 4 (generate_random_aws_access_key (\<lambda>i. 5 * i))) \<and>
   take 7 (generate_random_aws_access_key (\<lambda>i. 5 * i)) = ''AKIAAFK''"
proof -
  have "take 7 (generate_random_aws_access_key (\<lambda>i. 5 * i)) = ''AKIAAFK''"
    by code_simp
  with access_key_shape [of "\<lambda>i. 5 * i"] show ?thesis
    by (simp add: list_all_iff)
qed

section \<open>The concrete worlds\<close>

lemma test0_simps:
  "repo_path test0 = [''tmp'', ''tmpk3x9'']" "outfile test0 = ''test.txt''" "debug test0 = False"
  by (simp_all add: test0_def Test_01_init_def mkdtemp_def env_hook_def)

lemma world1_simps:
  "fs world1 = Map.empty([] \<mapsto> Dir, [''home''] \<mapsto> Dir, [''tmp''] \<mapsto> Dir,
                 [''tmp'', ''tmpk3x9''] \<mapsto> Dir)"
  "cwd world1 = [''home'']" "logs world1 = []" "procs world1 = []"
  by (simp_all add: world1_def Test_01_init_def mkdtemp_def env_hook_def world0_def)

lemma init_cmd0: "path_str [''tmp'', ''tmpk3x9''] = ''/tmp/tmpk3x9''"
  by (simp add: path_str_def)

lemma world0_fresh: "\<forall>p. prefix [''tmp'', ''tmpk3x9''] p \<longrightarrow> fs world0 p = None"
proof (intro allI impI)
  fix p :: path
  assume "prefix [''tmp'', ''tmpk3x9''] p"
  then obtain zs where "p = [''tmp'', ''tmpk3x9''] @ zs"
    by (auto simp: prefix_def)
  then show "fs world0 p = None"
    by (simp add: world0_def)
qed

lemma nothing_below:
  "(\<forall>p. P p \<longrightarrow> f p = None) \<Longrightarrow> \<not> (\<exists>p. P p \<and> f p \<noteq> None)"
  by simp

section \<open>Properties of the utility class\<close>

lemma decode_decodable: "decodable c \<Longrightarrow> decode c = Inr (text_of c)"
  by (cases c) (simp_all add: decode_def)

lemma decode_undecodable: "\<not> decodable c \<Longrightarrow> decode c = Inl UnicodeDecodeError"
  by (cases c) (simp_all add: decode_def)

lemma trigger_hook_cases:
  "trigger_hook e f s =
     (let add = ''git add '' @ f;
          s1 = logging DEBUG (RunningCommand add) s\<lparr>procs := procs s @ [add]\<rparr>
      in if \<not> loggable (shell e add) then (Inl UnicodeDecodeError, s1)
         else let s3 = (if returncode (shell e add) = 0 then s1
                        else logging ERROR (CouldNotRun add (text_of (cpe_output (shell e add)))) s1);
                  s5 = (logging DEBUG (RunningCommand commit_cmd) s3)
                          \<lparr>procs := procs s @ [add, commit_cmd]\<rparr>
              in if returncode (shell e commit_cmd) = 0 then (Inr True, s5)
                 else let s6 = logging INFO (CommandReturnCode commit_cmd
                                  (returncode (shell e commit_cmd))) s5
                      in if decodable (cpe_output (shell e commit_cmd))
                         then (Inr False, logging INFO
                                 (CommandOutput (text_of (cpe_output (shell e commit_cmd)))) s6)
                         else (Inl UnicodeDecodeError, s6))"
  by (cases "cpe_output (shell e (''git add '' @ f))"; cases "cpe_output (shell e commit_cmd)")
     (simp_all add: trigger_hook_def check_output_def loggable_def Let_def logging_def decode_def)

lemma trigger_hook_fst:
  "fst (trigger_hook e f s) =
     (if \<not> loggable (shell e (''git add '' @ f)) then Inl UnicodeDecodeError
      else if returncode (shell e commit_cmd) = 0 then Inr True
      else if decodable (cpe_output (shell e commit_cmd)) then Inr False
      else Inl UnicodeDecodeError)"
  by (simp add: trigger_hook_cases Let_def)

lemma trigger_hook_keeps_fs: "fs (snd (trigger_hook e f s)) = fs s"
  by (simp add: trigger_hook_cases Let_def logging_def)

lemma trigger_hook_procs:
  "procs (snd (trigger_hook e f s)) =
     (if loggable (shell e (''git add '' @ f))
      then procs s @ [''git add '' @ f, commit_cmd] else procs s @ [''git add '' @ f])"
  by (simp add: trigger_hook_cases Let_def logging_def)

text \<open>
  C3, as amended. Provided the captured output of each of the two commands that exits
  non-zero is valid UTF-8, \<^verbatim>\<open>trigger_hook(file)\<close> returns \<^verbatim>\<open>True\<close> if the commit
  command exits zero and \<^verbatim>\<open>False\<close> if it exits non-zero; a failure of the preceding add
  command is logged as an error and swallowed: it neither changes the value returned nor
  raises.
\<close>

theorem trigger_hook_result:
  assumes "loggable (shell e (''git add '' @ f))" and "loggable (shell e commit_cmd)"
  shows "fst (trigger_hook e f s) = Inr (returncode (shell e commit_cmd) = 0) \<and>
         (returncode (shell e (''git add '' @ f)) \<noteq> 0 \<longrightarrow>
            (ERROR, CouldNotRun (''git add '' @ f) (text_of (cpe_output (shell e (''git add '' @ f)))))
              \<in> set (logs (snd (trigger_hook e f s))))"
  using assms
  by (auto simp: trigger_hook_cases Let_def loggable_def logging_def)

theorem trigger_hook_result_witness:
  "loggable (shell env_hook (''git add '' @ ''test.txt'')) \<and>
   loggable (shell env_hook commit_cmd) \<and>
   fst (trigger_hook env_hook ''test.txt'' world0) = Inr False \<and>
   loggable (shell env_no_hook (''git add '' @ ''test.txt'')) \<and>
   loggable (shell env_no_hook commit_cmd) \<and>
   fst (trigger_hook env_no_hook ''test.txt'' world0) = Inr True \<and>
   loggable (shell env_add_failed (''git add '' @ ''test.txt'')) \<and>
   loggable (shell env_add_failed commit_cmd) \<and>
   returncode (shell env_add_failed (''git add '' @ ''test.txt'')) \<noteq> 0 \<and>
   fst (trigger_hook env_add_failed ''test.txt'' world0) = Inr False \<and>
   (ERROR, CouldNotRun ''git add test.txt'' ''fatal: not a git repository'')
     \<in> set (logs (snd (trigger_hook env_add_failed ''test.txt'' world0)))"
proof -
  have a: "loggable (shell env_hook (''git add '' @ ''test.txt'')) \<and>
           loggable (shell env_hook commit_cmd) \<and>
           returncode (shell env_hook commit_cmd) = 1"
    by (simp add: loggable_def env_hook_def commit_cmd_def)
  have b: "loggable (shell env_no_hook (''git add '' @ ''test.txt'')) \<and>
           loggable (shell env_no_hook commit_cmd) \<and>
           returncode (shell env_no_hook commit_cmd) = 0"
    by (simp add: loggable_def env_no_hook_def env_hook_def)
  have c: "loggable (shell env_add_failed (''git add '' @ ''test.txt'')) \<and>
           loggable (shell env_add_failed commit_cmd) \<and>
           returncode (shell env_add_failed commit_cmd) = 128 \<and>
           returncode (shell env_add_failed (''git add '' @ ''test.txt'')) = 128 \<and>
           cpe_output (shell env_add_failed (''git add '' @ ''test.txt'')) =
             Text ''fatal: not a git repository''"
    by (simp add: loggable_def env_add_failed_def env_hook_def commit_cmd_def)
  from a trigger_hook_result [of env_hook "''test.txt''" world0]
  have a': "fst (trigger_hook env_hook ''test.txt'' world0) = Inr False"
    by simp
  from b trigger_hook_result [of env_no_hook "''test.txt''" world0]
  have b': "fst (trigger_hook env_no_hook ''test.txt'' world0) = Inr True"
    by simp
  from c trigger_hook_result [of env_add_failed "''test.txt''" world0]
  have c': "fst (trigger_hook env_add_failed ''test.txt'' world0) = Inr False \<and>
            (ERROR, CouldNotRun ''git add test.txt'' ''fatal: not a git repository'')
              \<in> set (logs (snd (trigger_hook env_add_failed ''test.txt'' world0)))"
    by simp
  from a b c a' b' c' show ?thesis by simp
qed

text \<open>
  The claim C3 as stated fails when the captured output of a failing command is not valid
  UTF-8. The add command fails with such output while the commit would exit zero:
  \<^verbatim>\<open>trigger_hook\<close> raises \<^verbatim>\<open>UnicodeDecodeError\<close> out of the handler that was to
  swallow the failure, and returns nothing. The commit exits non-zero with such output:
  \<^verbatim>\<open>trigger_hook\<close> raises the same error instead of returning \<^verbatim>\<open>False\<close>.
\<close>

theorem trigger_hook_raises:
  "fst (trigger_hook env_add_garbled ''test.txt'' world0) = Inl UnicodeDecodeError \<and>
   returncode (shell env_add_garbled ''git add test.txt'') \<noteq> 0 \<and>
   returncode (shell env_add_garbled commit_cmd) = 0 \<and>
   fst (trigger_hook env_commit_garbled ''test.txt'' world0) = Inl UnicodeDecodeError \<and>
   returncode (shell env_commit_garbled commit_cmd) \<noteq> 0"
  by (simp add: trigger_hook_cases Let_def loggable_def env_add_garbled_def env_commit_garbled_def
      env_hook_def commit_cmd_def)

lemma rmtree_raises_Exception: "fst (rmtree e path s) = Inl x \<Longrightarrow> is_Exception x"
  by (auto simp: rmtree_def split: if_splits)

lemma remove_repo_cases:
  "remove_repo e path s =
     (if \<not> isdir s path \<or> rmtree_refused e path
      then (Inr RFalse, logging ERROR (CannotRemove path (OSError path)) s)
      else (Inr RNone, s\<lparr>fs := (\<lambda>p. if prefix path p then None else fs s p)\<rparr>))"
  by (simp add: remove_repo_def rmtree_def)

text \<open>
  C7. \<^verbatim>\<open>remove_repo(path)\<close> never raises: for every path and every world it returns
  \<^verbatim>\<open>None\<close> or \<^verbatim>\<open>False\<close>. Any exception raised by the recursive deletion is caught,
  logged as an error and turned into the return value \<^verbatim>\<open>False\<close>; a deletion that
  succeeds returns \<^verbatim>\<open>None\<close>.
\<close>

theorem remove_repo_never_raises:
  "(fst (remove_repo e path s) = Inr RNone \<or> fst (remove_repo e path s) = Inr RFalse) \<and>
   (\<forall>x. fst (rmtree e path s) = Inl x \<longrightarrow>
      fst (remove_repo e path s) = Inr RFalse \<and>
      (ERROR, CannotRemove path x) \<in> set (logs (snd (remove_repo e path s)))) \<and>
   (fst (rmtree e path s) = Inr () \<longrightarrow> fst (remove_repo e path s) = Inr RNone)"
proof (cases "rmtree e path s")
  case (Pair r s1)
  show ?thesis
  proof (cases r)
    case (Inl x)
    with Pair have "is_Exception x"
      using rmtree_raises_Exception [of e path s x] by simp
    with Pair Inl show ?thesis
      by (simp add: remove_repo_def logging_def)
  next
    case (Inr u)
    with Pair show ?thesis
      by (simp add: remove_repo_def)
  qed
qed

theorem remove_repo_never_raises_witness:
  "fst (rmtree (env_hook\<lparr>rmtree_refused := (\<lambda>_. True)\<rparr>) [''tmp''] world0) = Inl (OSError [''tmp'']) \<and>
   fst (remove_repo (env_hook\<lparr>rmtree_refused := (\<lambda>_. True)\<rparr>) [''tmp''] world0) = Inr RFalse \<and>
   (ERROR, CannotRemove [''tmp''] (OSError [''tmp'']))
     \<in> set (logs (snd (remove_repo (env_hook\<lparr>rmtree_refused := (\<lambda>_. True)\<rparr>) [''tmp''] world0))) \<and>
   fst (rmtree env_hook [''tmp''] world0) = Inr () \<and>
   fst (remove_repo env_hook [''tmp''] world0) = Inr RNone"
proof -
  have a: "fst (rmtree (env_hook\<lparr>rmtree_refused := (\<lambda>_. True)\<rparr>) [''tmp''] world0) = Inl (OSError [''tmp''])"
    by (simp add: rmtree_def env_hook_def world0_def isdir_def)
  have b: "fst (rmtree env_hook [''tmp''] world0) = Inr ()"
    by (simp add: rmtree_def env_hook_def world0_def isdir_def)
  from a b
    remove_repo_never_raises [of "env_hook\<lparr>rmtree_refused := (\<lambda>_. True)\<rparr>" "[''tmp'']" world0]
    remove_repo_never_raises [of env_hook "[''tmp'']" world0]
  show ?thesis by simp
qed

lemma git_init_effect_keeps:
  "fs (git_init_effect e cmd s) = init_fs e cmd (fs s)"
  "logs (git_init_effect e cmd s) = logs s"
  "procs (git_init_effect e cmd s) = procs s"
  by (simp_all add: git_init_effect_def)

lemma create_repo_attempts_init:
  "procs (snd (create_repo e dbg path s)) = procs s @ [''git init '' @ path_str path] \<and>
   (isdir s (path @ [''.git'']) \<longrightarrow>
      (ERROR, GitDirExists (path @ [''.git''])) \<in> set (logs (snd (create_repo e dbg path s))))"
  by (simp add: create_repo_def check_output_def Let_def logging_def decode_def
      disable_gpgsign_def open_append_def open_read_def git_init_effect_def isdir_def
      split: captured.splits)

lemma create_repo_init_failed:
  assumes "returncode (shell e (''git init '' @ path_str path)) \<noteq> 0"
    and "decodable (cpe_output (shell e (''git init '' @ path_str path)))"
  shows "fst (create_repo e dbg path s) = Inr RFalse \<and>
         (ERROR, CommandReturnCode (''git init '' @ path_str path)
                   (returncode (shell e (''git init '' @ path_str path))))
           \<in> set (logs (snd (create_repo e dbg path s))) \<and>
         (ERROR, CommandOutput (text_of (cpe_output (shell e (''git init '' @ path_str path)))))
           \<in> set (logs (snd (create_repo e dbg path s)))"
  using assms
  by (simp add: create_repo_def check_output_def Let_def logging_def decode_decodable
      git_init_effect_def)

lemma create_repo_zero_exit:
  assumes "returncode (shell e (''git init '' @ path_str path)) = 0"
    and "decodable (cpe_output (shell e (''git init '' @ path_str path)))"
  shows "fst (create_repo e dbg path s) =
           (if init_fs e (''git init '' @ path_str path) (fs s) (path @ [''.git'']) = Some Dir \<and>
               init_fs e (''git init '' @ path_str path) (fs s) (path @ [''.git'', ''config''])
                 \<noteq> Some Dir
            then Inr RNone else Inl (OSError (path @ [''.git'', ''config''])))"
    and "fs (snd (create_repo e dbg path s)) =
           (if init_fs e (''git init '' @ path_str path) (fs s) (path @ [''.git'']) = Some Dir \<and>
               init_fs e (''git init '' @ path_str path) (fs s) (path @ [''.git'', ''config''])
                 \<noteq> Some Dir
            then (init_fs e (''git init '' @ path_str path) (fs s))
                   (path @ [''.git'', ''config''] \<mapsto>
                      File ((case init_fs e (''git init '' @ path_str path) (fs s)
                                    (path @ [''.git'', ''config'']) of
                               Some (File c) \<Rightarrow> c | _ \<Rightarrow> []) @ gpgsign_config_string))
            else init_fs e (''git init '' @ path_str path) (fs s))"
  using assms
  by (auto simp: create_repo_def check_output_def Let_def logging_def decode_decodable
      disable_gpgsign_def open_append_def open_read_def git_init_effect_def isdir_def
      butlast_append)

lemma init_fs_at_target:
  assumes "init_target e cmd = Some path"
  shows "init_fs e cmd f =
           f(path \<mapsto> Dir, path @ [''.git''] \<mapsto> Dir,
             path @ [''.git'', ''config''] \<mapsto>
               File (case f (path @ [''.git'', ''config'']) of
                       Some (File c) \<Rightarrow> c | _ \<Rightarrow> init_config e))"
  using assms by (simp add: init_fs_def)

lemma create_repo_init_succeeded:
  assumes "returncode (shell e (''git init '' @ path_str path)) = 0"
    and "decodable (cpe_output (shell e (''git init '' @ path_str path)))"
    and "init_target e (''git init '' @ path_str path) = Some path"
  shows "fst (create_repo e dbg path s) = Inr RNone \<and>
         fs (snd (create_repo e dbg path s)) =
           (fs s)(path \<mapsto> Dir, path @ [''.git''] \<mapsto> Dir,
                  path @ [''.git'', ''config''] \<mapsto>
                    File ((case fs s (path @ [''.git'', ''config'']) of
                             Some (File c) \<Rightarrow> c | _ \<Rightarrow> init_config e) @ gpgsign_config_string))"
  unfolding create_repo_zero_exit [OF assms(1,2)] init_fs_at_target [OF assms(3)]
  by simp

lemma create_repo_undecodable:
  "\<not> decodable (cpe_output (shell e (''git init '' @ path_str path))) \<Longrightarrow>
   fst (create_repo e dbg path s) = Inl UnicodeDecodeError"
  by (simp add: create_repo_def check_output_def Let_def decode_undecodable)

lemma create_repo_None_imp:
  assumes "fst (create_repo e dbg path s) = Inr RNone"
  shows "returncode (shell e (''git init '' @ path_str path)) = 0"
    and "decodable (cpe_output (shell e (''git init '' @ path_str path)))"
    and "init_fs e (''git init '' @ path_str path) (fs s) (path @ [''.git'']) = Some Dir"
    and "fs (snd (create_repo e dbg path s)) =
           (init_fs e (''git init '' @ path_str path) (fs s))
             (path @ [''.git'', ''config''] \<mapsto>
                File ((case init_fs e (''git init '' @ path_str path) (fs s)
                              (path @ [''.git'', ''config'']) of
                         Some (File c) \<Rightarrow> c | _ \<Rightarrow> []) @ gpgsign_config_string))"
proof -
  show d: "decodable (cpe_output (shell e (''git init '' @ path_str path)))"
    using assms create_repo_undecodable [of e path dbg s] by auto
  show z: "returncode (shell e (''git init '' @ path_str path)) = 0"
    using assms d create_repo_init_failed [of e path dbg s] by auto
  from assms create_repo_zero_exit(1) [OF z d, of dbg s]
  have ok: "init_fs e (''git init '' @ path_str path) (fs s) (path @ [''.git'']) = Some Dir \<and>
            init_fs e (''git init '' @ path_str path) (fs s) (path @ [''.git'', ''config''])
              \<noteq> Some Dir"
    by (simp split: if_splits)
  then show "init_fs e (''git init '' @ path_str path) (fs s) (path @ [''.git'']) = Some Dir"
    by simp
  from ok create_repo_zero_exit(2) [OF z d, of dbg s]
  show "fs (snd (create_repo e dbg path s)) =
           (init_fs e (''git init '' @ path_str path) (fs s))
             (path @ [''.git'', ''config''] \<mapsto>
                File ((case init_fs e (''git init '' @ path_str path) (fs s)
                              (path @ [''.git'', ''config'']) of
                         Some (File c) \<Rightarrow> c | _ \<Rightarrow> []) @ gpgsign_config_string))"
    by simp
qed

text \<open>
  C6, as amended. \<^verbatim>\<open>create_repo(path)\<close> always attempts the init command, and when a
  \<^verbatim>\<open>.git\<close> directory already exists under \<open>path\<close> it logs an error first without
  aborting. Provided the captured output of the init command is valid UTF-8: when the
  command exits non-zero, the command with its return code and the captured output are
  logged as errors and \<^verbatim>\<open>False\<close> is returned; when the command succeeds and the
  repository it has made is the one at \<open>path\<close>, the signing-disabled stanza is appended to
  the config file of that repository and \<^verbatim>\<open>None\<close> is returned.
\<close>

theorem create_repo_behaviour:
  "procs (snd (create_repo e dbg path s)) = procs s @ [''git init '' @ path_str path] \<and>
   (isdir s (path @ [''.git'']) \<longrightarrow>
      (ERROR, GitDirExists (path @ [''.git''])) \<in> set (logs (snd (create_repo e dbg path s)))) \<and>
   (decodable (cpe_output (shell e (''git init '' @ path_str path))) \<and>
    returncode (shell e (''git init '' @ path_str path)) \<noteq> 0 \<longrightarrow>
      fst (create_repo e dbg path s) = Inr RFalse \<and>
      (ERROR, CommandReturnCode (''git init '' @ path_str path)
                (returncode (shell e (''git init '' @ path_str path))))
        \<in> set (logs (snd (create_repo e dbg path s))) \<and>
      (ERROR, CommandOutput (text_of (cpe_output (shell e (''git init '' @ path_str path)))))
        \<in> set (logs (snd (create_repo e dbg path s)))) \<and>
   (decodable (cpe_output (shell e (''git init '' @ path_str path))) \<and>
    returncode (shell e (''git init '' @ path_str path)) = 0 \<and>
    init_target e (''git init '' @ path_str path) = Some path \<longrightarrow>
      fst (create_repo e dbg path s) = Inr RNone \<and>
      fs (snd (create_repo e dbg path s)) (path @ [''.git'', ''config'']) =
        Some (File ((case fs s (path @ [''.git'', ''config'']) of
                       Some (File c) \<Rightarrow> c | _ \<Rightarrow> init_config e) @ gpgsign_config_string)))"
proof (intro conjI impI)
  show "procs (snd (create_repo e dbg path s)) = procs s @ [''git init '' @ path_str path]"
    using create_repo_attempts_init [of e dbg path s] by (rule conjunct1)
next
  assume "isdir s (path @ [''.git''])"
  with create_repo_attempts_init [of e dbg path s, THEN conjunct2]
  show "(ERROR, GitDirExists (path @ [''.git'']))
               \<in> set (logs (snd (create_repo e dbg path s)))"
    by (rule mp)
next
  assume h: "decodable (cpe_output (shell e (''git init '' @ path_str path))) \<and>
             returncode (shell e (''git init '' @ path_str path)) \<noteq> 0"
  note f = create_repo_init_failed [OF h [THEN conjunct2] h [THEN conjunct1], of dbg s]
  from f show "fst (create_repo e dbg path s) = Inr RFalse"
    by (rule conjunct1)
  from f [THEN conjunct2] show "(ERROR, CommandReturnCode (''git init '' @ path_str path)
                   (returncode (shell e (''git init '' @ path_str path))))
           \<in> set (logs (snd (create_repo e dbg path s)))"
    by (rule conjunct1)
  from f [THEN conjunct2] show "(ERROR, CommandOutput (text_of (cpe_output (shell e (''git init '' @ path_str path)))))
           \<in> set (logs (snd (create_repo e dbg path s)))"
    by (rule conjunct2)
next
  assume h: "decodable (cpe_output (shell e (''git init '' @ path_str path))) \<and>
             returncode (shell e (''git init '' @ path_str path)) = 0 \<and>
             init_target e (''git init '' @ path_str path) = Some path"
  note f = create_repo_init_succeeded [OF h [THEN conjunct2, THEN conjunct1] h [THEN conjunct1]
      h [THEN conjunct2, THEN conjunct2], of dbg s]
  from f show "fst (create_repo e dbg path s) = Inr RNone"
    by (rule conjunct1)
  from f [THEN conjunct2]
  show "fs (snd (create_repo e dbg path s)) (path @ [''.git'', ''config'']) =
        Some (File ((case fs s (path @ [''.git'', ''config'']) of
                       Some (File c) \<Rightarrow> c | _ \<Rightarrow> init_config e) @ gpgsign_config_string))"
    by simp
qed

theorem create_repo_behaviour_witness:
  "decodable (cpe_output (shell env_hook (''git init '' @ path_str [''tmp'', ''tmpk3x9'']))) \<and>
   returncode (shell env_hook (''git init '' @ path_str [''tmp'', ''tmpk3x9''])) = 0 \<and>
   init_target env_hook (''git init '' @ path_str [''tmp'', ''tmpk3x9'']) =
     Some [''tmp'', ''tmpk3x9''] \<and>
   fst (create_repo env_hook False [''tmp'', ''tmpk3x9''] world1) = Inr RNone \<and>
   fs (snd (create_repo env_hook False [''tmp'', ''tmpk3x9''] world1))
      [''tmp'', ''tmpk3x9'', ''.git'', ''config''] =
     Some (File (''[core]'' @ gpgsign_config_string)) \<and>
   decodable (cpe_output (shell env_init_failed (''git init '' @ path_str [''tmp'', ''tmpk3x9'']))) \<and>
   returncode (shell env_init_failed (''git init '' @ path_str [''tmp'', ''tmpk3x9''])) \<noteq> 0 \<and>
   fst (create_repo env_init_failed False [''tmp'', ''tmpk3x9''] world1) = Inr RFalse \<and>
   isdir (git_init_effect env_hook ''git init /tmp/tmpk3x9'' world1)
     ([''tmp'', ''tmpk3x9''] @ [''.git'']) \<and>
   (ERROR, GitDirExists ([''tmp'', ''tmpk3x9''] @ [''.git'']))
     \<in> set (logs (snd (create_repo env_hook False [''tmp'', ''tmpk3x9'']
                        (git_init_effect env_hook ''git init /tmp/tmpk3x9'' world1))))"
proof -
  have a: "decodable (cpe_output (shell env_hook (''git init '' @ path_str [''tmp'', ''tmpk3x9'']))) \<and>
           returncode (shell env_hook (''git init '' @ path_str [''tmp'', ''tmpk3x9''])) = 0 \<and>
           init_target env_hook (''git init '' @ path_str [''tmp'', ''tmpk3x9'']) =
             Some [''tmp'', ''tmpk3x9'']"
    by (simp add: init_cmd0 env_hook_def commit_cmd_def)
  have b: "decodable (cpe_output (shell env_init_failed (''git init '' @ path_str [''tmp'', ''tmpk3x9'']))) \<and>
           returncode (shell env_init_failed (''git init '' @ path_str [''tmp'', ''tmpk3x9''])) \<noteq> 0"
    by (simp add: init_cmd0 env_init_failed_def)
  have c: "isdir (git_init_effect env_hook ''git init /tmp/tmpk3x9'' world1)
             ([''tmp'', ''tmpk3x9''] @ [''.git''])"
    by (simp add: isdir_def git_init_effect_def init_fs_def env_hook_def)
  have d: "fs world1 ([''tmp'', ''tmpk3x9''] @ [''.git'', ''config'']) = None"
    by (simp add: world1_simps)
  have e: "init_config env_hook = ''[core]''"
    by (simp add: env_hook_def)
  from a b c d e
    create_repo_behaviour [of env_hook False "[''tmp'', ''tmpk3x9'']" world1]
    create_repo_behaviour [of env_init_failed False "[''tmp'', ''tmpk3x9'']" world1]
    create_repo_behaviour [of env_hook False "[''tmp'', ''tmpk3x9'']"
      "git_init_effect env_hook ''git init /tmp/tmpk3x9'' world1"]
  show ?thesis by simp
qed

lemma init_cmd_elsewhere:
  "path_str [''tmp'', ''x #y'', ''tmpk3x9''] = ''/tmp/x #y/tmpk3x9''"
  by (simp add: path_str_def)

text \<open>
  The claim C6 as stated fails in two ways. When the captured output of the init command
  is not valid UTF-8, \<^verbatim>\<open>create_repo\<close> raises \<^verbatim>\<open>UnicodeDecodeError\<close>: after a successful
  init before it reaches \<^verbatim>\<open>disable_gpgsign\<close>, so the config file is left without the
  stanza, and after a failed init instead of returning \<^verbatim>\<open>False\<close>. And when the init
  command succeeds with the repository made elsewhere, as for a path below a directory
  named \<^verbatim>\<open>x #y\<close>, there is no config file under \<open>path\<close>: \<^verbatim>\<open>disable_gpgsign\<close> raises
  the \<^verbatim>\<open>OSError\<close> of a file not found and nothing is appended.
\<close>

theorem create_repo_raises:
  "returncode (shell env_init_garbled (''git init '' @ path_str [''tmp'', ''tmpk3x9''])) = 0 \<and>
   fst (create_repo env_init_garbled False [''tmp'', ''tmpk3x9''] world1) = Inl UnicodeDecodeError \<and>
   fs (snd (create_repo env_init_garbled False [''tmp'', ''tmpk3x9''] world1))
      [''tmp'', ''tmpk3x9'', ''.git'', ''config''] = Some (File ''[core]'') \<and>
   returncode (shell env_init_failed_garbled (''git init '' @ path_str [''tmp'', ''tmpk3x9''])) \<noteq> 0 \<and>
   fst (create_repo env_init_failed_garbled False [''tmp'', ''tmpk3x9''] world1) =
     Inl UnicodeDecodeError \<and>
   returncode (shell env_init_elsewhere
     (''git init '' @ path_str [''tmp'', ''x #y'', ''tmpk3x9''])) = 0 \<and>
   cpe_output (shell env_init_elsewhere
     (''git init '' @ path_str [''tmp'', ''x #y'', ''tmpk3x9''])) = Text [] \<and>
   fst (create_repo env_init_elsewhere False [''tmp'', ''x #y'', ''tmpk3x9'']
          (snd (mkdtemp env_init_elsewhere world0))) =
     Inl (OSError [''tmp'', ''x #y'', ''tmpk3x9'', ''.git'', ''config'']) \<and>
   fs (snd (create_repo env_init_elsewhere False [''tmp'', ''x #y'', ''tmpk3x9'']
          (snd (mkdtemp env_init_elsewhere world0))))
      [''tmp'', ''x #y'', ''tmpk3x9'', ''.git'', ''config''] = None"
proof -
  have a: "returncode (shell env_init_garbled (''git init '' @ path_str [''tmp'', ''tmpk3x9''])) = 0 \<and>
   fst (create_repo env_init_garbled False [''tmp'', ''tmpk3x9''] world1) = Inl UnicodeDecodeError \<and>
   fs (snd (create_repo env_init_garbled False [''tmp'', ''tmpk3x9''] world1))
      [''tmp'', ''tmpk3x9'', ''.git'', ''config''] = Some (File ''[core]'')"
    by (simp add: init_cmd0 create_repo_def check_output_def Let_def logging_def decode_def
      git_init_effect_def init_fs_def isdir_def world1_simps env_init_garbled_def env_hook_def)
  have b: "returncode (shell env_init_failed_garbled (''git init '' @ path_str [''tmp'', ''tmpk3x9''])) \<noteq> 0 \<and>
   fst (create_repo env_init_failed_garbled False [''tmp'', ''tmpk3x9''] world1) =
     Inl UnicodeDecodeError"
    by (simp add: init_cmd0 create_repo_def check_output_def Let_def logging_def decode_def
      git_init_effect_def init_fs_def isdir_def world1_simps env_init_failed_garbled_def
      env_hook_def)
  have c: "returncode (shell env_init_elsewhere
     (''git init '' @ path_str [''tmp'', ''x #y'', ''tmpk3x9''])) = 0 \<and>
   cpe_output (shell env_init_elsewhere
     (''git init '' @ path_str [''tmp'', ''x #y'', ''tmpk3x9''])) = Text []"
    by (simp add: init_cmd_elsewhere env_init_elsewhere_def env_hook_def commit_cmd_def)
  have d: "fst (create_repo env_init_elsewhere False [''tmp'', ''x #y'', ''tmpk3x9'']
          (snd (mkdtemp env_init_elsewhere world0))) =
     Inl (OSError [''tmp'', ''x #y'', ''tmpk3x9'', ''.git'', ''config'']) \<and>
   fs (snd (create_repo env_init_elsewhere False [''tmp'', ''x #y'', ''tmpk3x9'']
          (snd (mkdtemp env_init_elsewhere world0))))
      [''tmp'', ''x #y'', ''tmpk3x9'', ''.git'', ''config''] = None"
    by (simp add: init_cmd_elsewhere create_repo_def check_output_def Let_def logging_def
      decode_def disable_gpgsign_def open_append_def git_init_effect_def init_fs_def isdir_def
      mkdtemp_def world0_def env_init_elsewhere_def env_hook_def commit_cmd_def)
  from a b c d show ?thesis
    by (intro conjI) simp_all
qed

lemma which_git_secrets_cases:
  "which_git_secrets e s =
     (if scanner_usable e then (Inr (), s)
      else (Inl (SystemExit 1),
            logging ERROR (case which e ''git-secrets'' of
                             None \<Rightarrow> NotFoundInPath ''git-secrets''
                           | Some found \<Rightarrow> NotExecutable found) s))"
  by (simp add: which_git_secrets_def scanner_usable_def split: option.splits)

section \<open>Properties of the test case\<close>

lemma setUp_scanner_unusable:
  "\<not> scanner_usable e \<Longrightarrow> setUp t e s = which_git_secrets e s"
  by (simp add: setUp_def which_git_secrets_cases)

lemma setUp_after_create_repo:
  assumes "scanner_usable e" and "fst (create_repo e (debug t) (repo_path t) s) = Inr RNone"
  shows "setUp t e s =
           open_write (repo_path t @ [outfile t])
             (''aws_secret_access_key = '' @ generate_random_aws_secret_key (rng e))
             (snd (create_repo e (debug t) (repo_path t) s))"
  using assms
  by (cases "create_repo e (debug t) (repo_path t) s")
     (simp add: setUp_def which_git_secrets_cases Let_def)

lemma fixture_after_create_repo:
  assumes fresh: "\<forall>p. prefix tmp p \<longrightarrow> f p = None"
    and created: "fst (create_repo e dbg tmp s0) = Inr RNone"
    and s0: "fs s0 = f(tmp \<mapsto> Dir)"
  shows "fs (snd (create_repo e dbg tmp s0)) tmp = Some Dir"
    and "fs (snd (create_repo e dbg tmp s0)) (tmp @ [''test.txt'']) = None"
    and "\<forall>p c. prefix tmp p \<and> \<not> prefix (tmp @ [''.git'']) p \<longrightarrow>
           fs (snd (create_repo e dbg tmp s0)) p \<noteq> Some (File c)"
proof -
  define cmd where "cmd = ''git init '' @ path_str tmp"
  define F4 where "F4 = init_fs e cmd (f(tmp \<mapsto> Dir))"
  note imp = create_repo_None_imp(3,4) [OF created, folded cmd_def, unfolded s0, folded F4_def]
  have gd: "F4 (tmp @ [''.git'']) = Some Dir"
    by (rule imp(1))
  have F: "fs (snd (create_repo e dbg tmp s0)) =
             F4(tmp @ [''.git'', ''config''] \<mapsto>
                  File ((case F4 (tmp @ [''.git'', ''config'']) of
                           Some (File c) \<Rightarrow> c | _ \<Rightarrow> []) @ gpgsign_config_string))"
    by (rule imp(2))
  have none: "f (tmp @ [''.git'']) = None"
    using fresh by simp
  obtain q where q: "init_target e cmd = Some q" and where_q: "q = tmp \<or> q = tmp @ [''.git'']"
  proof (cases "init_target e cmd")
    case None
    with gd none show ?thesis
      by (simp add: F4_def init_fs_def)
  next
    case (Some q)
    with gd none have "q = tmp \<or> q = tmp @ [''.git'']"
      by (auto simp: F4_def init_fs_def split: if_splits)
    with Some that show ?thesis by blast
  qed
  have F4: "F4 = (f(tmp \<mapsto> Dir))(q \<mapsto> Dir, q @ [''.git''] \<mapsto> Dir,
                  q @ [''.git'', ''config''] \<mapsto>
                    File (case (f(tmp \<mapsto> Dir)) (q @ [''.git'', ''config'']) of
                            Some (File c) \<Rightarrow> c | _ \<Rightarrow> init_config e))"
    by (simp add: F4_def init_fs_def q)
  from where_q show "fs (snd (create_repo e dbg tmp s0)) tmp = Some Dir"
    by (auto simp: F F4)
  have "f (tmp @ [''test.txt'']) = None"
    using fresh by simp
  with where_q show "fs (snd (create_repo e dbg tmp s0)) (tmp @ [''test.txt'']) = None"
    by (auto simp: F F4)
  show "\<forall>p c. prefix tmp p \<and> \<not> prefix (tmp @ [''.git'']) p \<longrightarrow>
           fs (snd (create_repo e dbg tmp s0)) p \<noteq> Some (File c)"
  proof (intro allI impI)
    fix p c
    assume h: "prefix tmp p \<and> \<not> prefix (tmp @ [''.git'']) p"
    then have fp: "f p = None" using fresh by simp
    from h have n1: "p \<noteq> tmp @ [''.git'', ''config'']"
      and n2: "p \<noteq> tmp @ [''.git'', ''.git'', ''config'']"
      by auto
    from where_q fp n1 n2 show "fs (snd (create_repo e dbg tmp s0)) p \<noteq> Some (File c)"
      by (auto simp: F F4 split: if_splits)
  qed
qed

lemma setUp_payload:
  assumes fresh: "\<forall>p. prefix (tmpdir e) p \<longrightarrow> fs s p = None"
    and constructed: "Test_01_init e dbg s = (t, s0)"
    and usable: "scanner_usable e"
    and created: "fst (create_repo e (debug t) (repo_path t) s0) = Inr RNone"
  shows "fst (setUp t e s0) = Inr ()"
    and "fs (snd (setUp t e s0)) =
           (fs (snd (create_repo e (debug t) (repo_path t) s0)))
             (tmpdir e @ [''test.txt''] \<mapsto>
                File (''aws_secret_access_key = '' @ generate_random_aws_secret_key (rng e)))"
    and "\<forall>p c. prefix (tmpdir e) p \<and> \<not> prefix (tmpdir e @ [''.git'']) p \<longrightarrow>
           fs (snd (create_repo e (debug t) (repo_path t) s0)) p \<noteq> Some (File c)"
proof -
  from constructed have t: "repo_path t = tmpdir e" "outfile t = ''test.txt''"
    and s0: "fs s0 = (fs s)(tmpdir e \<mapsto> Dir)"
    by (auto simp: Test_01_init_def mkdtemp_def)
  from created have created': "fst (create_repo e (debug t) (tmpdir e) s0) = Inr RNone"
    by (simp add: t)
  note fx = fixture_after_create_repo [OF fresh created' s0]
  have su: "setUp t e s0 =
           open_write (tmpdir e @ [''test.txt''])
             (''aws_secret_access_key = '' @ generate_random_aws_secret_key (rng e))
             (snd (create_repo e (debug t) (tmpdir e) s0))"
    using setUp_after_create_repo [OF usable created] by (simp add: t)
  show "fst (setUp t e s0) = Inr ()"
    by (simp add: su open_write_def isdir_def fx(1,2))
  show "fs (snd (setUp t e s0)) =
           (fs (snd (create_repo e (debug t) (repo_path t) s0)))
             (tmpdir e @ [''test.txt''] \<mapsto>
                File (''aws_secret_access_key = '' @ generate_random_aws_secret_key (rng e)))"
    by (simp add: su open_write_def isdir_def fx(1,2) t)
  show "\<forall>p c. prefix (tmpdir e) p \<and> \<not> prefix (tmpdir e @ [''.git'']) p \<longrightarrow>
           fs (snd (create_repo e (debug t) (repo_path t) s0)) p \<noteq> Some (File c)"
    using fx(3) by (simp add: t)
qed

lemma setUp0:
  assumes "tmpdir e = [''tmp'', ''tmpk3x9'']" and "scanner_usable e"
    and "shell e ''git init /tmp/tmpk3x9'' = \<lparr>returncode = 0, cpe_output = Text []\<rparr>"
    and "init_target e ''git init /tmp/tmpk3x9'' = Some [''tmp'', ''tmpk3x9'']"
  shows "fst (setUp test0 e world1) = Inr ()"
proof -
  have init: "Test_01_init e False world0 = (test0, world1)"
    using assms(1)
    by (simp add: test0_def world1_def Test_01_init_def mkdtemp_def env_hook_def)
  have "fst (create_repo e (debug test0) (repo_path test0) world1) = Inr RNone"
    using create_repo_init_succeeded [of e "[''tmp'', ''tmpk3x9'']" False world1]
    by (simp add: test0_simps init_cmd0 assms(3,4))
  with world0_fresh init assms(1,2) show ?thesis
    using setUp_payload(1) [of e world0 False test0 world1] by simp
qed

lemma try_chdir_keeps:
  "procs (try_chdir p s) = procs s" "fs (try_chdir p s) = fs s"
  by (simp_all add: try_chdir_def chdir_def logging_def)

lemma test_method_result:
  "fst (test_git_pre_commit_hook t e s) =
     (case fst (trigger_hook e (outfile t) (try_chdir (repo_path t) s)) of
        Inl x \<Rightarrow> Inl x
      | Inr outcome \<Rightarrow> if outcome then Inl AssertionError else Inr ())"
  by (simp add: test_git_pre_commit_hook_def Let_def split: prod.splits sum.splits)

lemma test_method_procs:
  "procs (snd (test_git_pre_commit_hook t e s)) =
     procs (snd (trigger_hook e (outfile t) (try_chdir (repo_path t) s)))"
  by (simp add: test_git_pre_commit_hook_def Let_def try_chdir_keeps split: prod.splits sum.splits)

lemma test_method_keeps_fs: "fs (snd (test_git_pre_commit_hook t e s)) = fs s"
proof -
  have "fs (snd (test_git_pre_commit_hook t e s)) =
        fs (snd (trigger_hook e (outfile t) (try_chdir (repo_path t) s)))"
    by (simp add: test_git_pre_commit_hook_def Let_def try_chdir_keeps
        split: prod.splits sum.splits)
  then show ?thesis
    by (simp add: trigger_hook_keeps_fs try_chdir_keeps)
qed

lemma tearDown_returns: "fst (tearDown t e s) = Inr ()"
  by (simp add: tearDown_def remove_repo_cases)

lemma tearDown_not_raised: "tearDown t e s \<noteq> (Inl x, s')"
  using tearDown_returns [of t e s] by (cases "tearDown t e s") auto

lemma run_result:
  "fst (run t e s) =
     (case fst (setUp t e s) of
        Inl x \<Rightarrow> classify x
      | Inr _ \<Rightarrow>
          (case fst (test_git_pre_commit_hook t e (snd (setUp t e s))) of
             Inl x \<Rightarrow> classify x
           | Inr _ \<Rightarrow> Success))"
  by (auto simp: run_def tearDown_not_raised split: prod.splits sum.splits)

lemma run_scanner_unusable:
  "\<not> scanner_usable e \<Longrightarrow>
   run t e s = (Error (SystemExit 1), snd (which_git_secrets e s))"
  by (simp add: run_def setUp_scanner_unusable which_git_secrets_cases)

lemma classify_not_Success: "classify x \<noteq> Success"
  by (cases x) simp_all

text \<open>
  C1, as amended. The test method asserts that \<^verbatim>\<open>trigger_hook\<close> returns false, so the
  scenario passes if and only if the Trigger Outcome is false. Whenever the commit command
  runs and exits zero, \<^verbatim>\<open>trigger_hook\<close> returns \<^verbatim>\<open>True\<close>, the assertion fails and the
  scenario reports failure. Whenever the commit command runs and is blocked (it exits
  non-zero) with captured output that is valid UTF-8, \<^verbatim>\<open>trigger_hook\<close> returns
  \<^verbatim>\<open>False\<close>, the assertion holds and the scenario passes. All of it holds for the test
  method from any state and for the scenario as the runner executes it after a \<^verbatim>\<open>setUp\<close>
  that returned (\<^verbatim>\<open>tearDown\<close> never raises).
\<close>

theorem test_passes_iff_outcome_false:
  "(fst (test_git_pre_commit_hook t e s) = Inr ()) =
     (fst (trigger_hook e (outfile t) (try_chdir (repo_path t) s)) = Inr False) \<and>
   (fst (trigger_hook e (outfile t) (try_chdir (repo_path t) s)) = Inr True \<longrightarrow>
      fst (test_git_pre_commit_hook t e s) = Inl AssertionError) \<and>
   (procs (snd (test_git_pre_commit_hook t e s)) =
      procs s @ [''git add '' @ outfile t, commit_cmd] \<and>
    returncode (shell e commit_cmd) = 0 \<longrightarrow>
      fst (trigger_hook e (outfile t) (try_chdir (repo_path t) s)) = Inr True \<and>
      fst (test_git_pre_commit_hook t e s) = Inl AssertionError) \<and>
   (procs (snd (test_git_pre_commit_hook t e s)) =
      procs s @ [''git add '' @ outfile t, commit_cmd] \<and>
    returncode (shell e commit_cmd) \<noteq> 0 \<and> decodable (cpe_output (shell e commit_cmd)) \<longrightarrow>
      fst (trigger_hook e (outfile t) (try_chdir (repo_path t) s)) = Inr False \<and>
      fst (test_git_pre_commit_hook t e s) = Inr ()) \<and>
   (fst (setUp t e s) = Inr () \<longrightarrow>
      (fst (run t e s) = Success) =
        (fst (trigger_hook e (outfile t) (try_chdir (repo_path t) (snd (setUp t e s)))) =
           Inr False)) \<and>
   (fst (setUp t e s) = Inr () \<and>
    fst (trigger_hook e (outfile t) (try_chdir (repo_path t) (snd (setUp t e s)))) = Inr True \<longrightarrow>
      fst (run t e s) = Failure) \<and>
   (fst (setUp t e s) = Inr () \<and>
    procs (snd (test_git_pre_commit_hook t e (snd (setUp t e s)))) =
      procs (snd (setUp t e s)) @ [''git add '' @ outfile t, commit_cmd] \<and>
    returncode (shell e commit_cmd) = 0 \<longrightarrow>
      fst (run t e s) = Failure) \<and>
   (fst (setUp t e s) = Inr () \<and>
    procs (snd (test_git_pre_commit_hook t e (snd (setUp t e s)))) =
      procs (snd (setUp t e s)) @ [''git add '' @ outfile t, commit_cmd] \<and>
    returncode (shell e commit_cmd) \<noteq> 0 \<and> decodable (cpe_output (shell e commit_cmd)) \<longrightarrow>
      fst (run t e s) = Success)"
proof (intro conjI impI)
  show "(fst (test_git_pre_commit_hook t e s) = Inr ()) =
          (fst (trigger_hook e (outfile t) (try_chdir (repo_path t) s)) = Inr False)"
    by (simp add: test_method_result split: sum.splits)
next
  assume "fst (trigger_hook e (outfile t) (try_chdir (repo_path t) s)) = Inr True"
  then show "fst (test_git_pre_commit_hook t e s) = Inl AssertionError"
    by (simp add: test_method_result)
next
  assume ran: "procs (snd (test_git_pre_commit_hook t e s)) =
                 procs s @ [''git add '' @ outfile t, commit_cmd] \<and>
               returncode (shell e commit_cmd) = 0"
  then have "loggable (shell e (''git add '' @ outfile t))"
    by (simp add: test_method_procs trigger_hook_procs try_chdir_keeps split: if_splits)
  with ran show outcome: "fst (trigger_hook e (outfile t) (try_chdir (repo_path t) s)) = Inr True"
    by (simp add: trigger_hook_fst)
  then show "fst (test_git_pre_commit_hook t e s) = Inl AssertionError"
    by (simp add: test_method_result)
next
  assume ran: "procs (snd (test_git_pre_commit_hook t e s)) =
                 procs s @ [''git add '' @ outfile t, commit_cmd] \<and>
               returncode (shell e commit_cmd) \<noteq> 0 \<and>
               decodable (cpe_output (shell e commit_cmd))"
  then have "loggable (shell e (''git add '' @ outfile t))"
    by (simp add: test_method_procs trigger_hook_procs try_chdir_keeps split: if_splits)
  with ran show outcome: "fst (trigger_hook e (outfile t) (try_chdir (repo_path t) s)) = Inr False"
    by (simp add: trigger_hook_fst)
  then show "fst (test_git_pre_commit_hook t e s) = Inr ()"
    by (simp add: test_method_result)
next
  assume "fst (setUp t e s) = Inr ()"
  then show "(fst (run t e s) = Success) =
        (fst (trigger_hook e (outfile t) (try_chdir (repo_path t) (snd (setUp t e s)))) =
           Inr False)"
    by (simp add: run_result test_method_result classify_not_Success split: sum.splits)
next
  assume "fst (setUp t e s) = Inr () \<and>
    fst (trigger_hook e (outfile t) (try_chdir (repo_path t) (snd (setUp t e s)))) = Inr True"
  then show "fst (run t e s) = Failure"
    by (simp add: run_result test_method_result)
next
  assume ran: "fst (setUp t e s) = Inr () \<and>
    procs (snd (test_git_pre_commit_hook t e (snd (setUp t e s)))) =
      procs (snd (setUp t e s)) @ [''git add '' @ outfile t, commit_cmd] \<and>
    returncode (shell e commit_cmd) = 0"
  then have "loggable (shell e (''git add '' @ outfile t))"
    by (simp add: test_method_procs trigger_hook_procs try_chdir_keeps split: if_splits)
  with ran show "fst (run t e s) = Failure"
    by (simp add: run_result test_method_result trigger_hook_fst)
next
  assume ran: "fst (setUp t e s) = Inr () \<and>
    procs (snd (test_git_pre_commit_hook t e (snd (setUp t e s)))) =
      procs (snd (setUp t e s)) @ [''git add '' @ outfile t, commit_cmd] \<and>
    returncode (shell e commit_cmd) \<noteq> 0 \<and> decodable (cpe_output (shell e commit_cmd))"
  then have "loggable (shell e (''git add '' @ outfile t))"
    by (simp add: test_method_procs trigger_hook_procs try_chdir_keeps split: if_splits)
  with ran show "fst (run t e s) = Success"
    by (simp add: run_result test_method_result trigger_hook_fst)
qed

theorem test_passes_iff_outcome_false_witness:
  "fst (trigger_hook env_hook (outfile test0) (try_chdir (repo_path test0) world1)) = Inr False \<and>
   fst (test_git_pre_commit_hook test0 env_hook world1) = Inr () \<and>
   fst (trigger_hook env_no_hook (outfile test0) (try_chdir (repo_path test0) world1)) = Inr True \<and>
   fst (test_git_pre_commit_hook test0 env_no_hook world1) = Inl AssertionError \<and>
   procs (snd (test_git_pre_commit_hook test0 env_no_hook world1)) =
     procs world1 @ [''git add '' @ outfile test0, commit_cmd] \<and>
   returncode (shell env_no_hook commit_cmd) = 0 \<and>
   procs (snd (test_git_pre_commit_hook test0 env_hook world1)) =
     procs world1 @ [''git add '' @ outfile test0, commit_cmd] \<and>
   returncode (shell env_hook commit_cmd) = 1 \<and>
   decodable (cpe_output (shell env_hook commit_cmd)) \<and>
   fst (setUp test0 env_hook world1) = Inr () \<and>
   procs (snd (test_git_pre_commit_hook test0 env_hook (snd (setUp test0 env_hook world1)))) =
     procs (snd (setUp test0 env_hook world1)) @ [''git add '' @ outfile test0, commit_cmd] \<and>
   fst (run test0 env_hook world1) = Success \<and>
   fst (setUp test0 env_no_hook world1) = Inr () \<and>
   procs (snd (test_git_pre_commit_hook test0 env_no_hook (snd (setUp test0 env_no_hook world1)))) =
     procs (snd (setUp test0 env_no_hook world1)) @ [''git add '' @ outfile test0, commit_cmd] \<and>
   fst (run test0 env_no_hook world1) = Failure"
proof -
  have hook: "\<And>s. fst (trigger_hook env_hook (outfile test0) s) = Inr False"
    by (simp add: trigger_hook_fst loggable_def env_hook_def commit_cmd_def test0_simps)
  have no_hook: "\<And>s. fst (trigger_hook env_no_hook (outfile test0) s) = Inr True"
    by (simp add: trigger_hook_fst loggable_def env_no_hook_def env_hook_def)
  have ran: "\<And>s. procs (snd (test_git_pre_commit_hook test0 env_no_hook s)) =
     procs s @ [''git add '' @ outfile test0, commit_cmd]"
    by (simp add: test_method_procs trigger_hook_procs try_chdir_keeps loggable_def
        env_no_hook_def env_hook_def)
  have ran': "\<And>s. procs (snd (test_git_pre_commit_hook test0 env_hook s)) =
     procs s @ [''git add '' @ outfile test0, commit_cmd]"
    by (simp add: test_method_procs trigger_hook_procs try_chdir_keeps loggable_def
        env_hook_def commit_cmd_def test0_simps)
  have zero: "returncode (shell env_no_hook commit_cmd) = 0"
    by (simp add: env_no_hook_def env_hook_def)
  have one: "returncode (shell env_hook commit_cmd) = 1 \<and>
             decodable (cpe_output (shell env_hook commit_cmd))"
    by (simp add: env_hook_def)
  have up: "fst (setUp test0 env_hook world1) = Inr ()"
    by (rule setUp0) (simp_all add: env_hook_def scanner_usable_def commit_cmd_def)
  have up': "fst (setUp test0 env_no_hook world1) = Inr ()"
    by (rule setUp0) (simp_all add: env_no_hook_def env_hook_def scanner_usable_def)
  from hook no_hook ran ran' zero one up up'
    test_passes_iff_outcome_false [of test0 env_hook world1]
    test_passes_iff_outcome_false [of test0 env_no_hook world1]
  show ?thesis by simp
qed

text \<open>
  The claim C1 as stated fails when the blocked commit's captured output is not valid
  UTF-8. \<^verbatim>\<open>setUp\<close> returns, the add command succeeds, the commit command runs and exits
  with status 1: \<^verbatim>\<open>trigger_hook\<close> raises \<^verbatim>\<open>UnicodeDecodeError\<close> while it formats the
  log message, the assertion is never evaluated, the test method does not return and the
  runner records an error, so the scenario does not pass.
\<close>

theorem blocked_commit_scenario_errors:
  "fst (setUp test0 env_commit_garbled world1) = Inr () \<and>
   procs (snd (test_git_pre_commit_hook test0 env_commit_garbled
                 (snd (setUp test0 env_commit_garbled world1)))) =
     procs (snd (setUp test0 env_commit_garbled world1)) @
       [''git add '' @ outfile test0, commit_cmd] \<and>
   returncode (shell env_commit_garbled commit_cmd) = 1 \<and>
   fst (test_git_pre_commit_hook test0 env_commit_garbled
          (snd (setUp test0 env_commit_garbled world1))) = Inl UnicodeDecodeError \<and>
   fst (run test0 env_commit_garbled world1) = Error UnicodeDecodeError"
proof -
  have up: "fst (setUp test0 env_commit_garbled world1) = Inr ()"
    by (rule setUp0)
       (simp_all add: env_commit_garbled_def env_hook_def scanner_usable_def commit_cmd_def)
  have ran: "\<And>s. procs (snd (test_git_pre_commit_hook test0 env_commit_garbled s)) =
     procs s @ [''git add '' @ outfile test0, commit_cmd]"
    by (simp add: test_method_procs trigger_hook_procs try_chdir_keeps loggable_def
        env_commit_garbled_def env_hook_def commit_cmd_def test0_simps)
  have one: "returncode (shell env_commit_garbled commit_cmd) = 1"
    by (simp add: env_commit_garbled_def env_hook_def)
  have raised: "\<And>s. fst (test_git_pre_commit_hook test0 env_commit_garbled s) =
                  Inl UnicodeDecodeError"
    by (simp add: test_method_result trigger_hook_fst loggable_def env_commit_garbled_def
        env_hook_def commit_cmd_def test0_simps)
  have err: "fst (run test0 env_commit_garbled world1) = Error UnicodeDecodeError"
    by (simp add: run_result up raised)
  from up ran one raised err show ?thesis
    by (intro conjI)
qed

text \<open>
  C8. When the scanner is usable and \<^verbatim>\<open>create_repo\<close> returned without the failure
  indicator, \<^verbatim>\<open>setUp\<close> completes and has created the payload file \<^verbatim>\<open>test.txt\<close> in the
  fixture repository, which was not there before. The file holds the single line
  \<^verbatim>\<open>aws_secret_access_key = <secret>\<close>, without a line break, where the secret is the
  generated one: 40 characters, each an uppercase or lowercase letter, a digit or one of
  \<^verbatim>\<open>/\<close>, \<^verbatim>\<open>+\<close>, \<^verbatim>\<open>=\<close>. It is the only file of the fixture outside the metadata
  directory. The test method leaves the file system as it is, and \<^verbatim>\<open>tearDown\<close> either
  leaves the payload file as it is or removes it: its contents are never rewritten.
\<close>

theorem payload_file_created_once:
  assumes "\<forall>p. prefix (tmpdir e) p \<longrightarrow> fs s p = None"
    and "Test_01_init e dbg s = (t, s0)"
    and "scanner_usable e"
    and "fst (create_repo e (debug t) (repo_path t) s0) = Inr RNone"
  shows "fst (setUp t e s0) = Inr () \<and>
         outfile t = ''test.txt'' \<and>
         fs s0 (repo_path t @ [''test.txt'']) = None \<and>
         fs (snd (setUp t e s0)) (repo_path t @ [''test.txt'']) =
           Some (File (''aws_secret_access_key = '' @ generate_random_aws_secret_key (rng e))) \<and>
         length (generate_random_aws_secret_key (rng e)) = 40 \<and>
         (\<forall>c \<in> set (generate_random_aws_secret_key (rng e)).
            is_upper c \<or> is_lower c \<or> is_digit c \<or> is_symbol c) \<and>
         CHR 0x0A \<notin> set (''aws_secret_access_key = '' @ generate_random_aws_secret_key (rng e)) \<and>
         (\<forall>p c. prefix (repo_path t) p \<and> \<not> prefix (repo_path t @ [''.git'']) p \<and>
                 fs (snd (setUp t e s0)) p = Some (File c) \<longrightarrow>
                 p = repo_path t @ [''test.txt'']) \<and>
         fs (snd (test_git_pre_commit_hook t e (snd (setUp t e s0)))) = fs (snd (setUp t e s0)) \<and>
         (fs (snd (tearDown t e (snd (test_git_pre_commit_hook t e (snd (setUp t e s0))))))
             (repo_path t @ [''test.txt'']) =
            fs (snd (setUp t e s0)) (repo_path t @ [''test.txt'']) \<or>
          fs (snd (tearDown t e (snd (test_git_pre_commit_hook t e (snd (setUp t e s0))))))
             (repo_path t @ [''test.txt'']) = None)"
proof -
  note fresh = assms(1)
  from assms(2) have t: "repo_path t = tmpdir e" "outfile t = ''test.txt''"
    and s0: "fs s0 = (fs s)(tmpdir e \<mapsto> Dir)"
    by (auto simp: Test_01_init_def mkdtemp_def)
  note ok = setUp_payload(1) [OF assms]
  note fs1 = setUp_payload(2) [OF assms]
  note nofile = setUp_payload(3) [OF assms]
  have before: "fs s0 (repo_path t @ [''test.txt'']) = None"
    using fresh by (simp add: t s0)
  have payload: "fs (snd (setUp t e s0)) (repo_path t @ [''test.txt'']) =
           Some (File (''aws_secret_access_key = '' @ generate_random_aws_secret_key (rng e)))"
    by (simp add: fs1 t)
  have line: "CHR 0x0A \<notin> set (''aws_secret_access_key = '' @ generate_random_aws_secret_key (rng e))"
    using newline_not_in_secret [of "rng e"] by simp
  have only: "\<forall>p c. prefix (repo_path t) p \<and> \<not> prefix (repo_path t @ [''.git'']) p \<and>
                 fs (snd (setUp t e s0)) p = Some (File c) \<longrightarrow>
                 p = repo_path t @ [''test.txt'']"
  proof (intro allI impI)
    fix p c
    assume h: "prefix (repo_path t) p \<and> \<not> prefix (repo_path t @ [''.git'']) p \<and>
                 fs (snd (setUp t e s0)) p = Some (File c)"
    show "p = repo_path t @ [''test.txt'']"
    proof (rule ccontr)
      assume "p \<noteq> repo_path t @ [''test.txt'']"
      with h have "fs (snd (create_repo e (debug t) (repo_path t) s0)) p = Some (File c)"
        by (simp add: fs1 t)
      moreover from h nofile
      have "fs (snd (create_repo e (debug t) (repo_path t) s0)) p \<noteq> Some (File c)"
        by (simp add: t)
      ultimately show False by simp
    qed
  qed
  have test: "fs (snd (test_git_pre_commit_hook t e (snd (setUp t e s0)))) = fs (snd (setUp t e s0))"
    by (rule test_method_keeps_fs)
  have down: "fs (snd (tearDown t e (snd (test_git_pre_commit_hook t e (snd (setUp t e s0))))))
             (repo_path t @ [''test.txt'']) =
            fs (snd (setUp t e s0)) (repo_path t @ [''test.txt'']) \<or>
          fs (snd (tearDown t e (snd (test_git_pre_commit_hook t e (snd (setUp t e s0))))))
             (repo_path t @ [''test.txt'']) = None"
    by (simp add: tearDown_def remove_repo_cases logging_def test)
  from ok t(2) before payload secret_key_length [of "rng e"] secret_key_chars [of _ "rng e"]
    line only test down
  show ?thesis by blast
qed

theorem payload_file_created_once_witness:
  "\<not> (\<exists>p. prefix (tmpdir env_hook) p \<and> fs world0 p \<noteq> None) \<and>
   Test_01_init env_hook False world0 = (test0, world1) \<and>
   scanner_usable env_hook \<and>
   fst (create_repo env_hook (debug test0) (repo_path test0) world1) = Inr RNone \<and>
   fst (setUp test0 env_hook world1) = Inr () \<and>
   fs world1 [''tmp'', ''tmpk3x9'', ''test.txt''] = None \<and>
   fs (snd (setUp test0 env_hook world1)) [''tmp'', ''tmpk3x9'', ''test.txt''] =
     Some (File (''aws_secret_access_key = '' @ generate_random_aws_secret_key (\<lambda>i. 7 * i))) \<and>
   take 4 (generate_random_aws_secret_key (\<lambda>i. 7 * i)) = ''AHOV''"
proof -
  have tmp: "tmpdir env_hook = [''tmp'', ''tmpk3x9'']" and r: "rng env_hook = (\<lambda>i. 7 * i)"
    by (simp_all add: env_hook_def)
  have fresh: "\<forall>p. prefix (tmpdir env_hook) p \<longrightarrow> fs world0 p = None"
    unfolding tmp by (rule world0_fresh)
  have init: "Test_01_init env_hook False world0 = (test0, world1)"
    by (simp add: test0_def world1_def)
  have usable: "scanner_usable env_hook"
    by (simp add: scanner_usable_def env_hook_def)
  have created: "fst (create_repo env_hook (debug test0) (repo_path test0) world1) = Inr RNone"
    using create_repo_init_succeeded [of env_hook "[''tmp'', ''tmpk3x9'']" False world1]
    by (simp add: test0_simps init_cmd0 env_hook_def commit_cmd_def)
  have key: "take 4 (generate_random_aws_secret_key (\<lambda>i. 7 * i)) = ''AHOV''"
    by code_simp
  from fresh have nf: "\<not> (\<exists>p. prefix (tmpdir env_hook) p \<and> fs world0 p \<noteq> None)"
    by (rule nothing_below)
  note th = payload_file_created_once [OF fresh init usable created]
  have a: "fst (setUp test0 env_hook world1) = Inr ()"
    using th by (rule conjunct1)
  have b: "fs world1 (repo_path test0 @ [''test.txt'']) = None"
    using th [THEN conjunct2, THEN conjunct2, THEN conjunct1] .
  have c: "fs (snd (setUp test0 env_hook world1)) (repo_path test0 @ [''test.txt'']) =
           Some (File (''aws_secret_access_key = '' @ generate_random_aws_secret_key (rng env_hook)))"
    using th [THEN conjunct2, THEN conjunct2, THEN conjunct2, THEN conjunct1] .
  have b': "fs world1 [''tmp'', ''tmpk3x9'', ''test.txt''] = None"
    using b by (simp add: test0_simps)
  have c': "fs (snd (setUp test0 env_hook world1)) [''tmp'', ''tmpk3x9'', ''test.txt''] =
     Some (File (''aws_secret_access_key = '' @ generate_random_aws_secret_key (\<lambda>i. 7 * i)))"
    using c by (simp only: test0_simps r append.simps)
  from nf init usable created a b' c' key show ?thesis
    by (intro conjI)
qed

section \<open>Properties of the entry point\<close>

lemma program_scanner_unusable:
  assumes "\<not> scanner_usable e" and "version_ok v" and "parser e (tl argv) = Inr d"
  shows "program v argv e s =
           (1, snd (which_git_secrets e
                 (snd (mkdtemp e (s\<lparr>threshold := (if d then DEBUG else INFO)\<rparr>)))))"
  using assms
  by (cases d)
     (simp_all add: program_def main_def parse_args_def unittest_main_def Test_01_init_def
       run_scanner_unusable mkdtemp_def)

text \<open>
  C4. \<^verbatim>\<open>which_git_secrets\<close> raises \<^verbatim>\<open>SystemExit(1)\<close>, Python's request to end the
  process with status 1, when the executable is not found on the search path and also when
  it is found but is not executable; when it is found and executable the method returns
  normally and changes nothing. In both failing cases the process as a whole ends with
  exit status 1, which is not zero.
\<close>

theorem which_git_secrets_exits:
  "(which e ''git-secrets'' = None \<longrightarrow>
      fst (which_git_secrets e s) = Inl (SystemExit 1)) \<and>
   (\<forall>found. which e ''git-secrets'' = Some found \<and> \<not> access_x e found \<longrightarrow>
      fst (which_git_secrets e s) = Inl (SystemExit 1)) \<and>
   (\<forall>found. which e ''git-secrets'' = Some found \<and> access_x e found \<longrightarrow>
      which_git_secrets e s = (Inr (), s)) \<and>
   (\<not> scanner_usable e \<and> version_ok v \<and> parser e (tl argv) = Inr d \<longrightarrow>
      fst (program v argv e s) = 1 \<and> fst (program v argv e s) \<noteq> 0)"
  by (auto simp: which_git_secrets_cases scanner_usable_def program_scanner_unusable)

theorem which_git_secrets_exits_witness:
  "which env_missing ''git-secrets'' = None \<and>
   fst (which_git_secrets env_missing world0) = Inl (SystemExit 1) \<and>
   which env_not_executable ''git-secrets'' = Some [''usr'', ''bin'', ''git-secrets''] \<and>
   \<not> access_x env_not_executable [''usr'', ''bin'', ''git-secrets''] \<and>
   fst (which_git_secrets env_not_executable world0) = Inl (SystemExit 1) \<and>
   which env_hook ''git-secrets'' = Some [''usr'', ''bin'', ''git-secrets''] \<and>
   access_x env_hook [''usr'', ''bin'', ''git-secrets''] \<and>
   which_git_secrets env_hook world0 = (Inr (), world0) \<and>
   \<not> scanner_usable env_missing \<and> version_ok (3, 11) \<and>
   parser env_missing (tl [''unittest-git-secrets.py'']) = Inr False \<and>
   fst (program (3, 11) [''unittest-git-secrets.py''] env_missing world0) = 1"
proof -
  have a: "which env_missing ''git-secrets'' = None"
    by (simp add: env_missing_def env_hook_def)
  have b: "which env_not_executable ''git-secrets'' = Some [''usr'', ''bin'', ''git-secrets''] \<and>
           \<not> access_x env_not_executable [''usr'', ''bin'', ''git-secrets'']"
    by (simp add: env_not_executable_def env_hook_def)
  have c: "which env_hook ''git-secrets'' = Some [''usr'', ''bin'', ''git-secrets''] \<and>
           access_x env_hook [''usr'', ''bin'', ''git-secrets'']"
    by (simp add: env_hook_def)
  have d: "\<not> scanner_usable env_missing \<and> version_ok (3, 11) \<and>
           parser env_missing (tl [''unittest-git-secrets.py'']) = Inr False"
    by (simp add: scanner_usable_def env_missing_def env_hook_def version_ok_def flag_parser_def)
  from a b c d
    which_git_secrets_exits [of env_missing world0 "(3, 11)" "[''unittest-git-secrets.py'']" False]
    which_git_secrets_exits [of env_not_executable world0 "(3, 11)" "[]" False]
    which_git_secrets_exits [of env_hook world0 "(3, 11)" "[]" False]
  show ?thesis by simp
qed

text \<open>
  C5, as amended. If the scanner executable cannot be located on the search path, the
  process exits with status 1 before the repository is initialised and before the payload
  file is written: the failure is logged, no command has been run, and the only change to
  the file system is the temporary fixture directory, which the constructor of the test
  case created before \<^verbatim>\<open>setUp\<close> looked for the scanner and which still exists when the
  process exits.
\<close>

theorem scanner_missing_exit:
  assumes "which e ''git-secrets'' = None" and "version_ok v" and "parser e (tl argv) = Inr d"
  shows "fst (program v argv e s) = 1 \<and>
         procs (snd (program v argv e s)) = procs s \<and>
         fs (snd (program v argv e s)) = (fs s)(tmpdir e \<mapsto> Dir) \<and>
         logs (snd (program v argv e s)) = logs s @ [(ERROR, NotFoundInPath ''git-secrets'')]"
proof -
  from assms(1) have "\<not> scanner_usable e"
    by (simp add: scanner_usable_def)
  from program_scanner_unusable [OF this assms(2,3), of s] assms(1) show ?thesis
    by (simp add: which_git_secrets_cases scanner_usable_def mkdtemp_def logging_def)
qed

theorem scanner_missing_exit_witness:
  "which env_missing ''git-secrets'' = None \<and> version_ok (3, 11) \<and>
   parser env_missing (tl [''unittest-git-secrets.py'']) = Inr False \<and>
   fst (program (3, 11) [''unittest-git-secrets.py''] env_missing world0) = 1 \<and>
   procs (snd (program (3, 11) [''unittest-git-secrets.py''] env_missing world0)) = [] \<and>
   fs (snd (program (3, 11) [''unittest-git-secrets.py''] env_missing world0)) =
     (fs world0)([''tmp'', ''tmpk3x9''] \<mapsto> Dir)"
proof -
  have a: "which env_missing ''git-secrets'' = None"
    by (simp add: env_missing_def env_hook_def)
  have b: "version_ok (3, 11)"
    by (simp add: version_ok_def)
  have c: "parser env_missing (tl [''unittest-git-secrets.py'']) = Inr False"
    by (simp add: env_missing_def env_hook_def flag_parser_def)
  have d: "tmpdir env_missing = [''tmp'', ''tmpk3x9'']" "procs world0 = []"
    by (simp_all add: env_missing_def env_hook_def world0_def)
  from scanner_missing_exit [OF a b c, of world0] a b c d show ?thesis
    by simp
qed

text \<open>
  The claim C5 as stated fails: on a machine without the scanner the process exits with
  status 1, and the temporary fixture directory, absent before the run, exists at that
  exit. It exists already in the world in which \<^verbatim>\<open>setUp\<close> raises the exit, because the
  constructor has created it by then.
\<close>

theorem fixture_directory_exists_at_exit:
  "which env_missing ''git-secrets'' = None \<and>
   fs world0 (tmpdir env_missing) = None \<and>
   fst (program (3, 11) [''unittest-git-secrets.py''] env_missing world0) = 1 \<and>
   fs (snd (program (3, 11) [''unittest-git-secrets.py''] env_missing world0))
      (tmpdir env_missing) = Some Dir \<and>
   Test_01_init env_missing False world0 = (test0, world1) \<and>
   fs world1 (repo_path test0) = Some Dir \<and>
   fst (setUp test0 env_missing world1) = Inl (SystemExit 1)"
proof -
  have a: "which env_missing ''git-secrets'' = None"
    by (simp add: env_missing_def env_hook_def)
  have b: "fs world0 (tmpdir env_missing) = None"
    by (simp add: env_missing_def env_hook_def world0_def)
  have unusable: "\<not> scanner_usable env_missing"
    by (simp add: scanner_usable_def a)
  have v: "version_ok (3, 11)"
    by (simp add: version_ok_def)
  have p: "parser env_missing (tl [''unittest-git-secrets.py'']) = Inr False"
    by (simp add: env_missing_def env_hook_def flag_parser_def)
  have c: "fst (program (3, 11) [''unittest-git-secrets.py''] env_missing world0) = 1"
    by (simp add: program_scanner_unusable [OF unusable v p])
  have d: "fs (snd (program (3, 11) [''unittest-git-secrets.py''] env_missing world0))
      (tmpdir env_missing) = Some Dir"
    by (simp add: program_scanner_unusable [OF unusable v p] which_git_secrets_cases
        unusable mkdtemp_def logging_def)
  have e: "Test_01_init env_missing False world0 = (test0, world1)"
    by (simp add: test0_def world1_def Test_01_init_def mkdtemp_def env_missing_def env_hook_def)
  have f: "fs world1 (repo_path test0) = Some Dir"
    by (simp add: world1_simps test0_simps)
  have g: "fst (setUp test0 env_missing world1) = Inl (SystemExit 1)"
    by (simp add: setUp_scanner_unusable [OF unusable] which_git_secrets_cases unusable)
  from a b c d e f g show ?thesis
    by (intro conjI)
qed

text \<open>
  C10. Whenever the argument parser raises on the command line, as it does with
  \<^verbatim>\<open>SystemExit(2)\<close> for an unrecognised flag, \<^verbatim>\<open>parse_args\<close> raises
  \<^verbatim>\<open>SystemExit(0)\<close> in its place, and the process (on a Python recent enough to reach
  the parser) exits with status 0, having done nothing else.
\<close>

theorem parse_failure_exits_zero:
  "(parser e (tl argv) = Inl x \<longrightarrow> parse_args e argv = Inl (SystemExit 0)) \<and>
   (parser e (tl argv) = Inl x \<and> version_ok v \<longrightarrow> program v argv e s = (0, s))"
  by (simp add: parse_args_def program_def main_def)

theorem parse_failure_exits_zero_witness:
  "parser env_hook (tl [''unittest-git-secrets.py'', ''--verbose'']) = Inl (SystemExit 2) \<and>
   version_ok (3, 11) \<and>
   parse_args env_hook [''unittest-git-secrets.py'', ''--verbose''] = Inl (SystemExit 0) \<and>
   program (3, 11) [''unittest-git-secrets.py'', ''--verbose''] env_hook world0 = (0, world0)"
proof -
  have a: "parser env_hook (tl [''unittest-git-secrets.py'', ''--verbose'']) = Inl (SystemExit 2)"
    by (simp add: env_hook_def flag_parser_def)
  have b: "version_ok (3, 11)"
    by (simp add: version_ok_def)
  from parse_failure_exits_zero
    [of env_hook "[''unittest-git-secrets.py'', ''--verbose'']" "SystemExit 2" "(3, 11)" world0]
    a b
  show ?thesis by simp
qed

end
